theory Spec2Isabelle
  imports Main "HOL-Library.Word"
begin

section \<open>Values and objects of the Go program\<close>

text \<open>
  The package \<open>baseftrwapp\<close> (file \<open>handler_wrappers.go\<close>) decorates an
  \<open>http.Handler\<close>. Go's \<open>int\<close> is a machine integer; it is taken at its width on
  the 64-bit targets, so \<open>l.size += size\<close> wraps around as the Go addition does.
  Pointers and interface values that hold reference types are addresses into the
  stores of the \<open>world\<close> record below, so that two interface values holding the same
  pointer read and write the same struct.
\<close>

type_synonym go_int = "64 word"
type_synonym addr = nat

datatype error = Error string

text \<open>The triple \<open>(net.Conn, *bufio.ReadWriter, error)\<close>; connections and buffers
  are opaque handles, \<open>None\<close> is the \<open>nil\<close> error.\<close>

type_synonym hijacked = "nat \<times> nat \<times> error option"

text \<open>
  The real response sink handed to the decorators has an unknown dynamic type. It is an
  arbitrary deterministic object: it remembers the calls it has received, its \<open>Write\<close>
  and \<open>Hijack\<close> answer as a function of that history, and its dynamic type may or may
  not have the methods \<open>Hijack\<close>, \<open>Flush\<close> and \<open>CloseNotify\<close> (\<open>None\<close> and
  \<open>False\<close> mean that the method does not exist on the type).
\<close>

datatype call =
    CallHeader
  | CallWrite string
  | CallWriteHeader go_int
  | CallFlush
  | CallHijack
  | CallCloseNotify

record ResponseWriter =
  received :: "call list"
  Write_impl :: "call list \<Rightarrow> string \<Rightarrow> go_int \<times> error option"
  Hijack_impl :: "(call list \<Rightarrow> hijacked) option"
  Flush_impl :: bool
  CloseNotify_impl :: "nat option"

text \<open>\<open>type responseLogger struct { w http.ResponseWriter; status int; size int }\<close>.
  The field \<open>size\<close> is written \<open>size'\<close>.\<close>

record responseLogger =
  w :: addr
  status :: go_int
  size' :: go_int

record Userinfo =
  Username :: string

record URL =
  Scheme :: string
  Opaque :: string
  User :: "Userinfo option"
  Path :: string
  RawQuery :: string

text \<open>The fields of \<open>http.Request\<close> that the package reads. \<open>URL\<close> is a pointer
  (\<open>None\<close> is \<open>nil\<close>); \<open>Referer\<close> and \<open>UserAgent\<close> stand for the two header
  lookups \<open>req.Referer()\<close> and \<open>req.UserAgent()\<close>.\<close>

record Request =
  Method :: string
  RequestURI :: string
  Proto :: string
  ProtoMajor :: go_int
  Host :: string
  RemoteAddr :: string
  URL :: "URL option"
  Referer :: string
  UserAgent :: string

text \<open>The \<open>log.Fields\<close> map of \<open>writeRequestLog\<close>, one field per key.\<close>

record Fields =
  log_time :: nat
  log_host :: string
  log_username :: string
  log_method :: string
  log_transaction_id :: string
  log_uri :: string
  log_protocol :: string
  log_status :: go_int
  log_size :: go_int
  log_referer :: string
  log_userAgent :: string

text \<open>
  Functions the file calls and does not define. \<open>net.SplitHostPort\<close> and
  \<open>(*url.URL).RequestURI\<close> belong to the Go library and are parameters.

  Modelled from the spec: \<open>GetTransactionIdFromRequest\<close> is defined elsewhere in
  the package; the specification treats it as a pure function from the request to a
  string, and so it is a parameter too.
\<close>

record lib =
  GetTransactionIdFromRequest :: "Request \<Rightarrow> string"
  SplitHostPort :: "string \<Rightarrow> error + string \<times> string"
  URL_RequestURI :: "URL \<Rightarrow> string"

text \<open>
  The world: the real sinks, the heap of \<open>responseLogger\<close> structs (with the next
  free address), the requests, the \<open>io.Writer\<close> objects (each the list of chunks
  written to it), logrus' standard logger, the timers of \<open>metrics.DefaultRegistry\<close>
  (each the list of its samples) and the clock. Of logrus' standard logger the world
  holds the entries it has been handed at level Info (\<open>logrus_std\<close>), its level
  (\<open>logrus_level\<close>) and the entries it has written out (\<open>logrus_out\<close>).
\<close>

record world =
  writers :: "addr \<Rightarrow> ResponseWriter"
  heap :: "addr \<Rightarrow> responseLogger"
  next_addr :: addr
  requests :: "addr \<Rightarrow> Request"
  outs :: "addr \<Rightarrow> string list"
  logrus_std :: "Fields list"
  logrus_level :: nat
  logrus_out :: "Fields list"
  DefaultRegistry :: "string \<rightharpoonup> nat list"
  clock :: nat

section \<open>Interfaces, method sets and type assertions\<close>

datatype method_name = Header | Write | WriteHeader | Status | Size | Flush | Hijack | CloseNotify

definition http_ResponseWriter :: "method_name set" where
  "http_ResponseWriter = {Header, Write, WriteHeader}"

definition http_Flusher :: "method_name set" where
  "http_Flusher = {Flush}"

definition http_Hijacker :: "method_name set" where
  "http_Hijacker = {Hijack}"

definition http_CloseNotifier :: "method_name set" where
  "http_CloseNotifier = {CloseNotify}"

text \<open>\<open>type loggingResponseWriter interface\<close> (lines 64-69).\<close>

definition loggingResponseWriter_methods :: "method_name set" where
  "loggingResponseWriter_methods = http_ResponseWriter \<union> http_Flusher \<union> {Status, Size}"

text \<open>A type assertion \<open>v.(I)\<close> to an interface type succeeds when the method set
  of the dynamic type of \<open>v\<close> has every method of \<open>I\<close>.\<close>

definition implements :: "method_name set \<Rightarrow> method_name set \<Rightarrow> bool" where
  "implements ms iface = (iface \<subseteq> ms)"

text \<open>The methods of a real sink that the package can ask for.\<close>

definition dynamic_methods :: "ResponseWriter \<Rightarrow> method_name set" where
  "dynamic_methods rw =
     http_ResponseWriter
     \<union> (if Hijack_impl rw \<noteq> None then http_Hijacker else {})
     \<union> (if Flush_impl rw then http_Flusher else {})
     \<union> (if CloseNotify_impl rw \<noteq> None then http_CloseNotifier else {})"

text \<open>
  The dynamic types that the package stores in a \<open>loggingResponseWriter\<close>:
  \<open>*responseLogger\<close>, \<open>*hijackLogger\<close> (a struct that embeds a
  \<open>responseLogger\<close>, kept at the given address), \<open>*closeNotifyWriter\<close> and
  \<open>hijackCloseNotifier\<close>. The last two are structs of interface values; their
  \<open>http.CloseNotifier\<close> field holds a real sink, their \<open>http.Hijacker\<close> field
  holds what \<open>logger.(http.Hijacker)\<close> gave.
\<close>

datatype loggingResponseWriter =
    PtrResponseLogger addr
  | PtrHijackLogger addr
  | PtrCloseNotifyWriter loggingResponseWriter addr
  | HijackCloseNotifier loggingResponseWriter loggingResponseWriter addr

text \<open>Method sets, from the declarations: the methods with receiver
  \<open>*responseLogger\<close> (lines 79-111), \<open>Hijack\<close> with receiver \<open>*hijackLogger\<close>
  and the methods promoted from embedded fields.\<close>

fun method_set :: "loggingResponseWriter \<Rightarrow> method_name set" where
  "method_set (PtrResponseLogger a) = {Header, Write, WriteHeader, Status, Size, Flush}"
| "method_set (PtrHijackLogger a) = {Header, Write, WriteHeader, Status, Size, Flush} \<union> {Hijack}"
| "method_set (PtrCloseNotifyWriter l c) = loggingResponseWriter_methods \<union> http_CloseNotifier"
| "method_set (HijackCloseNotifier l h c) =
     loggingResponseWriter_methods \<union> http_Hijacker \<union> http_CloseNotifier"

text \<open>A response sink as a handler receives it: a real one or one of the above.\<close>

datatype sink = RealWriter addr | LoggingWriter loggingResponseWriter

fun sink_methods :: "sink \<Rightarrow> world \<Rightarrow> method_name set" where
  "sink_methods (RealWriter a) s = dynamic_methods (writers s a)"
| "sink_methods (LoggingWriter l) s = method_set l"

text \<open>The capabilities of the specification, as the probes see them.\<close>

datatype capability = Upgrade | CloseNotification | ExplicitFlush | Tracking

definition capabilities :: "method_name set \<Rightarrow> capability set" where
  "capabilities ms =
     (if implements ms http_Hijacker then {Upgrade} else {})
     \<union> (if implements ms http_CloseNotifier then {CloseNotification} else {})
     \<union> (if implements ms http_Flusher then {ExplicitFlush} else {})
     \<union> (if implements ms {Status, Size} then {Tracking} else {})"

section \<open>makeLogger\<close>

text \<open>\<open>&responseLogger{w: w}\<close>: a fresh struct with zero \<open>status\<close> and \<open>size\<close>.\<close>

definition new_responseLogger :: "addr \<Rightarrow> world \<Rightarrow> addr \<times> world" where
  "new_responseLogger rw s =
     (next_addr s,
      s\<lparr>heap := (heap s)(next_addr s := \<lparr>w = rw, status = 0, size' = 0\<rparr>),
        next_addr := Suc (next_addr s)\<rparr>)"

definition makeLogger :: "addr \<Rightarrow> world \<Rightarrow> loggingResponseWriter \<times> world" where
  "makeLogger rw s =
     (let (a1, s1) = new_responseLogger rw s;
          logger = PtrResponseLogger a1;
          (logger, s2) =
            (if implements (dynamic_methods (writers s1 rw)) http_Hijacker
             then (let (a2, s2) = new_responseLogger rw s1 in (PtrHijackLogger a2, s2))
             else (logger, s1));
          h = logger;
          ok1 = implements (method_set logger) http_Hijacker;
          c = rw;
          ok2 = implements (dynamic_methods (writers s2 rw)) http_CloseNotifier
      in if ok1 \<and> ok2 then (HijackCloseNotifier logger h c, s2)
         else if ok2 then (PtrCloseNotifyWriter logger c, s2)
         else (logger, s2))"

section \<open>The methods of the real sink\<close>

definition receive :: "addr \<Rightarrow> call \<Rightarrow> world \<Rightarrow> world" where
  "receive a c s =
     s\<lparr>writers := (writers s)(a := (writers s a)\<lparr>received := received (writers s a) @ [c]\<rparr>)\<rparr>"

definition real_Header :: "addr \<Rightarrow> world \<Rightarrow> world" where
  "real_Header a s = receive a CallHeader s"

definition real_Write :: "addr \<Rightarrow> string \<Rightarrow> world \<Rightarrow> (go_int \<times> error option) \<times> world" where
  "real_Write a b s =
     (Write_impl (writers s a) (received (writers s a)) b, receive a (CallWrite b) s)"

definition real_WriteHeader :: "addr \<Rightarrow> go_int \<Rightarrow> world \<Rightarrow> world" where
  "real_WriteHeader a code s = receive a (CallWriteHeader code) s"

definition real_Flush :: "addr \<Rightarrow> world \<Rightarrow> world" where
  "real_Flush a s = receive a CallFlush s"

text \<open>\<open>None\<close> where the dynamic type has no such method: no call can reach it.\<close>

definition real_Hijack :: "addr \<Rightarrow> world \<Rightarrow> (hijacked \<times> world) option" where
  "real_Hijack a s =
     (case Hijack_impl (writers s a) of
        None \<Rightarrow> None
      | Some f \<Rightarrow> Some (f (received (writers s a)), receive a CallHijack s))"

definition real_CloseNotify :: "addr \<Rightarrow> world \<Rightarrow> (nat \<times> world) option" where
  "real_CloseNotify a s =
     (case CloseNotify_impl (writers s a) of
        None \<Rightarrow> None
      | Some ch \<Rightarrow> Some (ch, receive a CallCloseNotify s))"

section \<open>responseLogger and hijackLogger\<close>

definition StatusOK :: go_int where
  "StatusOK = 200"

definition StatusSwitchingProtocols :: go_int where
  "StatusSwitchingProtocols = 101"

definition set_status :: "addr \<Rightarrow> go_int \<Rightarrow> world \<Rightarrow> world" where
  "set_status l v s = s\<lparr>heap := (heap s)(l := (heap s l)\<lparr>status := v\<rparr>)\<rparr>"

definition add_size :: "addr \<Rightarrow> go_int \<Rightarrow> world \<Rightarrow> world" where
  "add_size l n s = s\<lparr>heap := (heap s)(l := (heap s l)\<lparr>size' := size' (heap s l) + n\<rparr>)\<rparr>"

definition responseLogger_Header :: "addr \<Rightarrow> world \<Rightarrow> world" where
  "responseLogger_Header l s = real_Header (w (heap s l)) s"

definition responseLogger_Write ::
  "addr \<Rightarrow> string \<Rightarrow> world \<Rightarrow> (go_int \<times> error option) \<times> world" where
  "responseLogger_Write l b s =
     (let s1 = (if status (heap s l) = 0 then set_status l StatusOK s else s);
          ((n, err), s2) = real_Write (w (heap s1 l)) b s1
      in ((n, err), add_size l n s2))"

definition responseLogger_WriteHeader :: "addr \<Rightarrow> go_int \<Rightarrow> world \<Rightarrow> world" where
  "responseLogger_WriteHeader l code s =
     set_status l code (real_WriteHeader (w (heap s l)) code s)"

definition responseLogger_Status :: "addr \<Rightarrow> world \<Rightarrow> go_int" where
  "responseLogger_Status l s = status (heap s l)"

definition responseLogger_Size :: "addr \<Rightarrow> world \<Rightarrow> go_int" where
  "responseLogger_Size l s = size' (heap s l)"

definition responseLogger_Flush :: "addr \<Rightarrow> world \<Rightarrow> world" where
  "responseLogger_Flush l s =
     (if implements (dynamic_methods (writers s (w (heap s l)))) http_Flusher
      then real_Flush (w (heap s l)) s
      else s)"

text \<open>\<open>Hijack\<close> (lines 117-126). The assertion \<open>l.responseLogger.w.(http.Hijacker)\<close>
  has no \<open>ok\<close> result: it panics when it fails, which is the result \<open>None\<close>.\<close>

definition hijackLogger_Hijack :: "addr \<Rightarrow> world \<Rightarrow> (hijacked \<times> world) option" where
  "hijackLogger_Hijack l s =
     (if \<not> implements (dynamic_methods (writers s (w (heap s l)))) http_Hijacker then None
      else case real_Hijack (w (heap s l)) s of
             None \<Rightarrow> None
           | Some ((conn, brw, err), s1) \<Rightarrow>
               Some ((conn, brw, err),
                     if err = None \<and> status (heap s1 l) = 0
                     then set_status l StatusSwitchingProtocols s1
                     else s1))"

section \<open>Method calls through the interface\<close>

text \<open>A call on a \<open>loggingResponseWriter\<close> runs the method of its dynamic type; the
  two composite structs have only promoted methods, which run on the embedded field.\<close>

fun call_Header :: "loggingResponseWriter \<Rightarrow> world \<Rightarrow> world" where
  "call_Header (PtrResponseLogger a) s = responseLogger_Header a s"
| "call_Header (PtrHijackLogger a) s = responseLogger_Header a s"
| "call_Header (PtrCloseNotifyWriter l c) s = call_Header l s"
| "call_Header (HijackCloseNotifier l h c) s = call_Header l s"

fun call_Write ::
  "loggingResponseWriter \<Rightarrow> string \<Rightarrow> world \<Rightarrow> (go_int \<times> error option) \<times> world" where
  "call_Write (PtrResponseLogger a) b s = responseLogger_Write a b s"
| "call_Write (PtrHijackLogger a) b s = responseLogger_Write a b s"
| "call_Write (PtrCloseNotifyWriter l c) b s = call_Write l b s"
| "call_Write (HijackCloseNotifier l h c) b s = call_Write l b s"

fun call_WriteHeader :: "loggingResponseWriter \<Rightarrow> go_int \<Rightarrow> world \<Rightarrow> world" where
  "call_WriteHeader (PtrResponseLogger a) code s = responseLogger_WriteHeader a code s"
| "call_WriteHeader (PtrHijackLogger a) code s = responseLogger_WriteHeader a code s"
| "call_WriteHeader (PtrCloseNotifyWriter l c) code s = call_WriteHeader l code s"
| "call_WriteHeader (HijackCloseNotifier l h c) code s = call_WriteHeader l code s"

fun call_Status :: "loggingResponseWriter \<Rightarrow> world \<Rightarrow> go_int" where
  "call_Status (PtrResponseLogger a) s = responseLogger_Status a s"
| "call_Status (PtrHijackLogger a) s = responseLogger_Status a s"
| "call_Status (PtrCloseNotifyWriter l c) s = call_Status l s"
| "call_Status (HijackCloseNotifier l h c) s = call_Status l s"

fun call_Size :: "loggingResponseWriter \<Rightarrow> world \<Rightarrow> go_int" where
  "call_Size (PtrResponseLogger a) s = responseLogger_Size a s"
| "call_Size (PtrHijackLogger a) s = responseLogger_Size a s"
| "call_Size (PtrCloseNotifyWriter l c) s = call_Size l s"
| "call_Size (HijackCloseNotifier l h c) s = call_Size l s"

fun call_Flush :: "loggingResponseWriter \<Rightarrow> world \<Rightarrow> world" where
  "call_Flush (PtrResponseLogger a) s = responseLogger_Flush a s"
| "call_Flush (PtrHijackLogger a) s = responseLogger_Flush a s"
| "call_Flush (PtrCloseNotifyWriter l c) s = call_Flush l s"
| "call_Flush (HijackCloseNotifier l h c) s = call_Flush l s"

text \<open>\<open>Hijack\<close> and \<open>CloseNotify\<close> exist on some dynamic types only; on the others
  no call can be written, and the result \<open>None\<close> stands for the panic of a call that
  went wrong.\<close>

fun call_Hijack :: "loggingResponseWriter \<Rightarrow> world \<Rightarrow> (hijacked \<times> world) option" where
  "call_Hijack (PtrResponseLogger a) s = None"
| "call_Hijack (PtrHijackLogger a) s = hijackLogger_Hijack a s"
| "call_Hijack (PtrCloseNotifyWriter l c) s = None"
| "call_Hijack (HijackCloseNotifier l h c) s = call_Hijack h s"

fun call_CloseNotify :: "loggingResponseWriter \<Rightarrow> world \<Rightarrow> (nat \<times> world) option" where
  "call_CloseNotify (PtrResponseLogger a) s = None"
| "call_CloseNotify (PtrHijackLogger a) s = None"
| "call_CloseNotify (PtrCloseNotifyWriter l c) s = real_CloseNotify c s"
| "call_CloseNotify (HijackCloseNotifier l h c) s = real_CloseNotify c s"

fun sink_Header :: "sink \<Rightarrow> world \<Rightarrow> world" where
  "sink_Header (RealWriter a) s = real_Header a s"
| "sink_Header (LoggingWriter l) s = call_Header l s"

fun sink_Write :: "sink \<Rightarrow> string \<Rightarrow> world \<Rightarrow> (go_int \<times> error option) \<times> world" where
  "sink_Write (RealWriter a) b s = real_Write a b s"
| "sink_Write (LoggingWriter l) b s = call_Write l b s"

fun sink_WriteHeader :: "sink \<Rightarrow> go_int \<Rightarrow> world \<Rightarrow> world" where
  "sink_WriteHeader (RealWriter a) code s = real_WriteHeader a code s"
| "sink_WriteHeader (LoggingWriter l) code s = call_WriteHeader l code s"

fun sink_Flush :: "sink \<Rightarrow> world \<Rightarrow> world" where
  "sink_Flush (RealWriter a) s = real_Flush a s"
| "sink_Flush (LoggingWriter l) s = call_Flush l s"

fun sink_Hijack :: "sink \<Rightarrow> world \<Rightarrow> (hijacked \<times> world) option" where
  "sink_Hijack (RealWriter a) s = real_Hijack a s"
| "sink_Hijack (LoggingWriter l) s = call_Hijack l s"

fun sink_CloseNotify :: "sink \<Rightarrow> world \<Rightarrow> (nat \<times> world) option" where
  "sink_CloseNotify (RealWriter a) s = real_CloseNotify a s"
| "sink_CloseNotify (LoggingWriter l) s = call_CloseNotify l s"

section \<open>Inner handlers\<close>

text \<open>
  The inner handler is any \<open>http.Handler\<close>. What it does to its response sink and
  its request is a sequence of operations: the three methods of
  \<open>http.ResponseWriter\<close>, the three optional methods, each called after the type
  assertion that a handler has to make to reach it (and skipped when the assertion
  fails), an assignment to the request struct, the passing of time, and a panic, after
  which the handler does not return (it recovers from no panic). Each operation leaves
  an event: the call as the handler saw it, with what the sink returned. The methods of
  the real sink return; the handler touches neither the log, nor the registry, nor the
  \<open>io.Writer\<close> of the decorator.
\<close>

datatype op =
    DoHeader
  | DoWrite string
  | DoWriteHeader go_int
  | DoFlush
  | DoHijack
  | DoCloseNotify
  | DoAssign Request
  | DoSleep nat
  | DoPanic

datatype event =
    EvHeader
  | EvWrite string go_int "error option"
  | EvWriteHeader go_int
  | EvFlush
  | EvNoFlusher
  | EvHijack hijacked
  | EvNoHijacker
  | EvCloseNotify nat
  | EvNoCloseNotifier
  | EvAssign
  | EvSleep

datatype completion = Returned | Panicked

fun step :: "sink \<Rightarrow> addr \<Rightarrow> op \<Rightarrow> world \<Rightarrow> (event \<times> world) option" where
  "step v req DoHeader s = Some (EvHeader, sink_Header v s)"
| "step v req (DoWrite b) s =
     (let ((n, err), s1) = sink_Write v b s in Some (EvWrite b n err, s1))"
| "step v req (DoWriteHeader code) s = Some (EvWriteHeader code, sink_WriteHeader v code s)"
| "step v req DoFlush s =
     (if implements (sink_methods v s) http_Flusher then Some (EvFlush, sink_Flush v s)
      else Some (EvNoFlusher, s))"
| "step v req DoHijack s =
     (if implements (sink_methods v s) http_Hijacker
      then (case sink_Hijack v s of None \<Rightarrow> None | Some (r, s1) \<Rightarrow> Some (EvHijack r, s1))
      else Some (EvNoHijacker, s))"
| "step v req DoCloseNotify s =
     (if implements (sink_methods v s) http_CloseNotifier
      then (case sink_CloseNotify v s of
              None \<Rightarrow> None
            | Some (ch, s1) \<Rightarrow> Some (EvCloseNotify ch, s1))
      else Some (EvNoCloseNotifier, s))"
| "step v req (DoAssign r) s = Some (EvAssign, s\<lparr>requests := (requests s)(req := r)\<rparr>)"
| "step v req (DoSleep d) s = Some (EvSleep, s\<lparr>clock := clock s + d\<rparr>)"
| "step v req DoPanic s = None"

text \<open>\<open>handler.ServeHTTP(w, req)\<close> for an inner handler: whether it returned, the
  events so far and the world it left.\<close>

fun run_handler ::
  "op list \<Rightarrow> sink \<Rightarrow> addr \<Rightarrow> world \<Rightarrow> completion \<times> event list \<times> world" where
  "run_handler [] v req s = (Returned, [], s)"
| "run_handler (x # xs) v req s =
     (case step v req x s of
        None \<Rightarrow> (Panicked, [], s)
      | Some (e, s1) \<Rightarrow>
          (case run_handler xs v req s1 of (c, es, s2) \<Rightarrow> (c, e # es, s2)))"

section \<open>The logging decorator\<close>

text \<open>
  logrus is a library outside the file. Its levels are numbered from \<open>PanicLevel\<close>,
  0, to \<open>DebugLevel\<close>, 5, and its standard logger starts at \<open>InfoLevel\<close>.
  \<open>log.WithFields(...).Info("")\<close> hands one entry to the standard logger, which
  writes it out only when its level admits Info, and drops it under a stricter level.
\<close>

definition WarnLevel :: nat where
  "WarnLevel = 3"

definition InfoLevel :: nat where
  "InfoLevel = 4"

definition logrus_Info :: "Fields \<Rightarrow> world \<Rightarrow> world" where
  "logrus_Info fs s =
     s\<lparr>logrus_std := logrus_std s @ [fs],
       logrus_out := (if InfoLevel \<le> logrus_level s then logrus_out s @ [fs] else logrus_out s)\<rparr>"

text \<open>\<open>writeRequestLog\<close> (lines 142-182). Its first parameter, the \<open>io.Writer\<close>,
  is the address \<open>out\<close>; the parameters \<open>status\<close> and \<open>size\<close> are \<open>st\<close> and
  \<open>sz\<close>. It does not read the clock: \<open>ts\<close> is passed in.\<close>

definition writeRequestLog ::
  "lib \<Rightarrow> addr \<Rightarrow> addr \<Rightarrow> string \<Rightarrow> URL \<Rightarrow> nat \<Rightarrow> go_int \<Rightarrow> go_int \<Rightarrow> world \<Rightarrow> world" where
  "writeRequestLog L out req transactionID url ts st sz s =
     (let r = requests s req;
          username = (case User url of
                        None \<Rightarrow> ''-''
                      | Some u \<Rightarrow> if Username u \<noteq> [] then Username u else ''-'');
          host = (case SplitHostPort L (RemoteAddr r) of
                    Inl err \<Rightarrow> RemoteAddr r
                  | Inr (h, p) \<Rightarrow> h);
          uri = RequestURI r;
          uri = (if ProtoMajor r = 2 \<and> Method r = ''CONNECT'' then Host r else uri);
          uri = (if uri = [] then URL_RequestURI L url else uri)
      in logrus_Info
           \<lparr>log_time = ts, log_host = host, log_username = username, log_method = Method r,
            log_transaction_id = transactionID, log_uri = uri, log_protocol = Proto r,
            log_status = st, log_size = sz, log_referer = Referer r,
            log_userAgent = UserAgent r\<rparr> s)"

record transactionAwareRequestLoggingHandler =
  writer :: addr
  handler :: "op list"

definition TransactionAwareRequestLoggingHandler ::
  "addr \<Rightarrow> op list \<Rightarrow> transactionAwareRequestLoggingHandler" where
  "TransactionAwareRequestLoggingHandler out h = \<lparr>writer = out, handler = h\<rparr>"

text \<open>\<open>ServeHTTP\<close> (lines 39-46). \<open>*req.URL\<close> panics on a nil pointer; a panic of
  the inner handler unwinds through this function, which has no deferred call.\<close>

definition transactionAwareRequestLoggingHandler_ServeHTTP ::
  "lib \<Rightarrow> transactionAwareRequestLoggingHandler \<Rightarrow> addr \<Rightarrow> addr \<Rightarrow> world
     \<Rightarrow> completion \<times> event list \<times> world" where
  "transactionAwareRequestLoggingHandler_ServeHTTP L h rw req s =
     (let transactionID = GetTransactionIdFromRequest L (requests s req);
          t = clock s;
          (logger, s1) = makeLogger rw s
      in case URL (requests s1 req) of
           None \<Rightarrow> (Panicked, [], s1)
         | Some url \<Rightarrow>
             (case run_handler (handler h) (LoggingWriter logger) req s1 of
                (Panicked, es, s2) \<Rightarrow> (Panicked, es, s2)
              | (Returned, es, s2) \<Rightarrow>
                  (Returned, es,
                   writeRequestLog L (writer h) req transactionID url t
                     (call_Status logger s2) (call_Size logger s2) s2)))"

section \<open>The timing decorator\<close>

text \<open>
  Modelled from the spec: the go-metrics library is not part of the file. A registry
  maps a name to a timer; \<open>GetOrRegisterTimer\<close> returns the timer of that name and
  creates it, empty, on first use; \<open>t.Time(f)\<close> reads the clock, runs \<open>f\<close> and
  records the elapsed time as one sample when \<open>f\<close> returns: the timing wraps the
  synchronous call only, with no scope guard, so nothing is recorded when \<open>f\<close> does
  not return. A timer is named by its key in the registry.
\<close>

definition GetOrRegisterTimer :: "string \<Rightarrow> world \<Rightarrow> string \<times> world" where
  "GetOrRegisterTimer name s =
     (name,
      case DefaultRegistry s name of
        Some samples \<Rightarrow> s
      | None \<Rightarrow> s\<lparr>DefaultRegistry := (DefaultRegistry s)(name \<mapsto> [])\<rparr>)"

definition Timer_Update :: "string \<Rightarrow> nat \<Rightarrow> world \<Rightarrow> world" where
  "Timer_Update t d s =
     s\<lparr>DefaultRegistry :=
         (DefaultRegistry s)
           (t \<mapsto> (case DefaultRegistry s t of None \<Rightarrow> [] | Some xs \<Rightarrow> xs) @ [d])\<rparr>"

definition Timer_Time ::
  "string \<Rightarrow> (world \<Rightarrow> completion \<times> event list \<times> world) \<Rightarrow> world
     \<Rightarrow> completion \<times> event list \<times> world" where
  "Timer_Time t f s =
     (let ts = clock s
      in case f s of
           (Panicked, es, s1) \<Rightarrow> (Panicked, es, s1)
         | (Returned, es, s1) \<Rightarrow> (Returned, es, Timer_Update t (clock s1 - ts) s1))"

text \<open>\<open>type httpMetricsHandler struct { handler http.Handler }\<close>, built by
  \<open>HTTPMetricsHandler\<close>.\<close>

datatype httpMetricsHandler = HTTPMetricsHandler "op list"

text \<open>\<open>ServeHTTP\<close> (lines 24-27).\<close>

fun httpMetricsHandler_ServeHTTP ::
  "httpMetricsHandler \<Rightarrow> sink \<Rightarrow> addr \<Rightarrow> world \<Rightarrow> completion \<times> event list \<times> world" where
  "httpMetricsHandler_ServeHTTP (HTTPMetricsHandler h) v req s =
     (let (t, s1) = GetOrRegisterTimer (Method (requests s req)) s
      in Timer_Time t (run_handler h v req) s1)"

section \<open>Reading a run\<close>

text \<open>The struct that tracks status and size for a sink, and the four shapes in which
  \<open>makeLogger\<close> builds a sink around the struct at address \<open>a\<close> and the real sink
  \<open>rw\<close>.\<close>

fun tracker :: "loggingResponseWriter \<Rightarrow> addr" where
  "tracker (PtrResponseLogger a) = a"
| "tracker (PtrHijackLogger a) = a"
| "tracker (PtrCloseNotifyWriter l c) = tracker l"
| "tracker (HijackCloseNotifier l h c) = tracker l"

definition built :: "addr \<Rightarrow> addr \<Rightarrow> loggingResponseWriter \<Rightarrow> bool" where
  "built rw a l =
     (l = PtrResponseLogger a \<or> l = PtrHijackLogger a
      \<or> l = PtrCloseNotifyWriter (PtrResponseLogger a) rw
      \<or> l = HijackCloseNotifier (PtrHijackLogger a) (PtrHijackLogger a) rw)"

text \<open>What a run leaves alone: logrus' standard logger, the \<open>io.Writer\<close> objects,
  the registry and the dynamic type and behaviour of every real sink.\<close>

definition same_frame :: "world \<Rightarrow> world \<Rightarrow> bool" where
  "same_frame s s' =
     (logrus_std s' = logrus_std s \<and> logrus_level s' = logrus_level s
      \<and> logrus_out s' = logrus_out s \<and> outs s' = outs s
      \<and> DefaultRegistry s' = DefaultRegistry s
      \<and> (\<forall>b. Hijack_impl (writers s' b) = Hijack_impl (writers s b))
      \<and> (\<forall>b. Flush_impl (writers s' b) = Flush_impl (writers s b))
      \<and> (\<forall>b. CloseNotify_impl (writers s' b) = CloseNotify_impl (writers s b))
      \<and> (\<forall>b. Write_impl (writers s' b) = Write_impl (writers s b)))"

text \<open>The events of a run, read as the claims read them: the effect of one call on a
  status, the count a \<open>Write\<close> returned, the number of bytes passed to it, the codes
  of the \<open>WriteHeader\<close> calls, and the kinds of call.\<close>

fun status_step :: "event \<Rightarrow> go_int \<Rightarrow> go_int" where
  "status_step (EvWrite b n err) st = (if st = 0 then 200 else st)"
| "status_step (EvWriteHeader code) st = code"
| "status_step (EvHijack (conn, brw, err)) st = (if err = None \<and> st = 0 then 101 else st)"
| "status_step e st = st"

fun track :: "event list \<Rightarrow> go_int \<Rightarrow> go_int" where
  "track [] st = st"
| "track (e # es) st = track es (status_step e st)"

fun written :: "event \<Rightarrow> go_int" where
  "written (EvWrite b n err) = n"
| "written e = 0"

fun passed :: "event \<Rightarrow> nat" where
  "passed (EvWrite b n err) = length b"
| "passed e = 0"

fun complete :: "event \<Rightarrow> bool" where
  "complete (EvWrite b n err) = (n = word_of_nat (length b))"
| "complete e = True"

fun is_Write :: "event \<Rightarrow> bool" where
  "is_Write (EvWrite b n err) = True"
| "is_Write e = False"

fun is_WriteHeader :: "event \<Rightarrow> bool" where
  "is_WriteHeader (EvWriteHeader code) = True"
| "is_WriteHeader e = False"

fun is_Hijack :: "event \<Rightarrow> bool" where
  "is_Hijack (EvHijack r) = True"
| "is_Hijack e = False"

fun is_upgrade :: "event \<Rightarrow> bool" where
  "is_upgrade (EvHijack (conn, brw, err)) = (err = None)"
| "is_upgrade e = False"

fun codes :: "event list \<Rightarrow> go_int list" where
  "codes [] = []"
| "codes (EvWriteHeader code # es) = code # codes es"
| "codes (e # es) = codes es"

text \<open>The write calls of a handler with what each returned to it; and the writes that
  a real sink with the behaviour \<open>f\<close> and the history \<open>h\<close> answers when it receives
  the calls \<open>cs\<close>, each with what the real sink returns for it.\<close>

fun handler_writes :: "event list \<Rightarrow> (string \<times> go_int \<times> error option) list" where
  "handler_writes [] = []"
| "handler_writes (EvWrite b n err # es) = (b, n, err) # handler_writes es"
| "handler_writes (e # es) = handler_writes es"

fun real_writes ::
  "(call list \<Rightarrow> string \<Rightarrow> go_int \<times> error option) \<Rightarrow> call list \<Rightarrow> call list
     \<Rightarrow> (string \<times> go_int \<times> error option) list" where
  "real_writes f h [] = []"
| "real_writes f h (CallWrite b # cs) = (b, f h b) # real_writes f (h @ [CallWrite b]) cs"
| "real_writes f h (c # cs) = real_writes f (h @ [c]) cs"



section \<open>Concrete sinks, requests and worlds\<close>

text \<open>Inputs at which the statements below are evaluated: a sink with none of the
  optional methods that accepts every write, a sink with all three whose \<open>Hijack\<close>
  succeeds, and a sink that accepts no byte and refuses to be hijacked; a plain request
  and an HTTP/2 \<open>CONNECT\<close>; instances of the library functions; a world in which
  every address holds the given sink and request.\<close>

definition plain_sink :: ResponseWriter where
  "plain_sink =
     \<lparr>received = [], Write_impl = (\<lambda>cs b. (word_of_nat (length b), None)),
      Hijack_impl = None, Flush_impl = False, CloseNotify_impl = None\<rparr>"

definition full_sink :: ResponseWriter where
  "full_sink =
     \<lparr>received = [], Write_impl = (\<lambda>cs b. (word_of_nat (length b), None)),
      Hijack_impl = Some (\<lambda>cs. (1, 2, None)), Flush_impl = True, CloseNotify_impl = Some 3\<rparr>"

definition refusing_sink :: ResponseWriter where
  "refusing_sink =
     \<lparr>received = [], Write_impl = (\<lambda>cs b. (0, Some (Error ''body not allowed''))),
      Hijack_impl = Some (\<lambda>cs. (0, 0, Some (Error ''hijack refused''))), Flush_impl = False,
      CloseNotify_impl = None\<rparr>"

definition example_request :: Request where
  "example_request =
     \<lparr>Method = ''GET'', RequestURI = ''/things/1'', Proto = ''HTTP/1.1'', ProtoMajor = 1,
      Host = ''example.org'', RemoteAddr = ''10.0.0.1:4711'',
      URL = Some \<lparr>Scheme = [], Opaque = [], User = None, Path = ''/things/1'', RawQuery = []\<rparr>,
      Referer = [], UserAgent = ''curl''\<rparr>"

definition connect_request :: Request where
  "connect_request =
     \<lparr>Method = ''CONNECT'', RequestURI = [], Proto = ''HTTP/2.0'', ProtoMajor = 2,
      Host = ''proxy.example:443'', RemoteAddr = ''10.0.0.1:4711'',
      URL = Some \<lparr>Scheme = [], Opaque = [], User = None, Path = [], RawQuery = []\<rparr>,
      Referer = [], UserAgent = ''curl''\<rparr>"

definition example_lib :: lib where
  "example_lib =
     \<lparr>GetTransactionIdFromRequest = (\<lambda>r. ''tid_abc123''),
      SplitHostPort = (\<lambda>a. if CHR '':'' \<in> set a
                             then Inr (takeWhile (\<lambda>c. c \<noteq> CHR '':'') a,
                                       tl (dropWhile (\<lambda>c. c \<noteq> CHR '':'') a))
                             else Inl (Error ''missing port in address'')),
      URL_RequestURI = (\<lambda>u. if Path u = [] then ''/'' else Path u)\<rparr>"

definition example_world :: "ResponseWriter \<Rightarrow> Request \<Rightarrow> world" where
  "example_world rw r =
     \<lparr>writers = (\<lambda>a. rw), heap = (\<lambda>a. \<lparr>w = 0, status = 0, size' = 0\<rparr>), next_addr = 0,
      requests = (\<lambda>a. r), outs = (\<lambda>a. []), logrus_std = [], logrus_level = InfoLevel,
      logrus_out = [], DefaultRegistry = Map.empty, clock = 0\<rparr>"

definition serve_example ::
  "ResponseWriter \<Rightarrow> Request \<Rightarrow> op list \<Rightarrow> completion \<times> event list \<times> world" where
  "serve_example rw r h =
     transactionAwareRequestLoggingHandler_ServeHTTP example_lib
       (TransactionAwareRequestLoggingHandler 0 h) 0 0 (example_world rw r)"

text \<open>The sink that \<open>makeLogger\<close> builds around the sink at address 0 of such a
  world, the world it leaves, and the world after a handler has run on that sink.\<close>

definition example_logger :: "ResponseWriter \<Rightarrow> loggingResponseWriter" where
  "example_logger rw = fst (makeLogger 0 (example_world rw example_request))"

definition example_start :: "ResponseWriter \<Rightarrow> world" where
  "example_start rw = snd (makeLogger 0 (example_world rw example_request))"

definition example_after :: "ResponseWriter \<Rightarrow> op list \<Rightarrow> world \<Rightarrow> world" where
  "example_after rw h s = snd (snd (run_handler h (LoggingWriter (example_logger rw)) 0 s))"

text \<open>The same world with logrus' standard logger at \<open>WarnLevel\<close>.\<close>

definition quiet_world :: "ResponseWriter \<Rightarrow> Request \<Rightarrow> world" where
  "quiet_world rw r = (example_world rw r)\<lparr>logrus_level := WarnLevel\<rparr>"

section \<open>Properties\<close>

lemmas iface_defs = implements_def dynamic_methods_def http_ResponseWriter_def http_Flusher_def
  http_Hijacker_def http_CloseNotifier_def loggingResponseWriter_methods_def

lemmas real_defs = receive_def real_Header_def real_Write_def real_WriteHeader_def real_Flush_def
  real_Hijack_def real_CloseNotify_def

lemmas logger_defs = StatusOK_def StatusSwitchingProtocols_def set_status_def add_size_def
  responseLogger_Header_def responseLogger_Write_def responseLogger_WriteHeader_def
  responseLogger_Status_def responseLogger_Size_def responseLogger_Flush_def
  hijackLogger_Hijack_def

subsection \<open>What makeLogger builds\<close>

lemma makeLogger_fst:
  "fst (makeLogger rw s) =
     (if Hijack_impl (writers s rw) \<noteq> None \<and> CloseNotify_impl (writers s rw) \<noteq> None
      then HijackCloseNotifier (PtrHijackLogger (Suc (next_addr s)))
             (PtrHijackLogger (Suc (next_addr s))) rw
      else if CloseNotify_impl (writers s rw) \<noteq> None
      then PtrCloseNotifyWriter (PtrResponseLogger (next_addr s)) rw
      else if Hijack_impl (writers s rw) \<noteq> None then PtrHijackLogger (Suc (next_addr s))
      else PtrResponseLogger (next_addr s))"
  by (simp add: makeLogger_def new_responseLogger_def iface_defs Let_def)

lemma makeLogger_snd:
  "snd (makeLogger rw s) =
     (if Hijack_impl (writers s rw) \<noteq> None
      then s\<lparr>heap := (heap s)(next_addr s := \<lparr>w = rw, status = 0, size' = 0\<rparr>,
                              Suc (next_addr s) := \<lparr>w = rw, status = 0, size' = 0\<rparr>),
             next_addr := Suc (Suc (next_addr s))\<rparr>
      else s\<lparr>heap := (heap s)(next_addr s := \<lparr>w = rw, status = 0, size' = 0\<rparr>),
             next_addr := Suc (next_addr s)\<rparr>)"
  by (simp add: makeLogger_def new_responseLogger_def iface_defs Let_def)

lemma makeLogger_built:
  assumes "makeLogger rw s = (l, s1)"
  shows "built rw (tracker l) l"
    and "heap s1 (tracker l) = \<lparr>w = rw, status = 0, size' = 0\<rparr>"
    and "writers s1 = writers s" and "requests s1 = requests s" and "outs s1 = outs s"
    and "logrus_std s1 = logrus_std s" and "DefaultRegistry s1 = DefaultRegistry s"
    and "clock s1 = clock s" and "logrus_level s1 = logrus_level s"
    and "logrus_out s1 = logrus_out s"
proof -
  have l: "l = fst (makeLogger rw s)" and s1: "s1 = snd (makeLogger rw s)"
    using assms by simp_all
  show "built rw (tracker l) l" by (simp add: l makeLogger_fst built_def)
  show "heap s1 (tracker l) = \<lparr>w = rw, status = 0, size' = 0\<rparr>"
    by (simp add: l s1 makeLogger_fst makeLogger_snd)
  show "writers s1 = writers s" "requests s1 = requests s" "outs s1 = outs s"
    "logrus_std s1 = logrus_std s" "DefaultRegistry s1 = DefaultRegistry s" "clock s1 = clock s"
    "logrus_level s1 = logrus_level s" "logrus_out s1 = logrus_out s"
    by (simp_all add: s1 makeLogger_snd)
qed

lemma call_Status_built: "built rw a l \<Longrightarrow> call_Status l s = status (heap s a)"
  by (auto simp add: built_def responseLogger_Status_def)

lemma call_Size_built: "built rw a l \<Longrightarrow> call_Size l s = size' (heap s a)"
  by (auto simp add: built_def responseLogger_Size_def)

subsection \<open>One call, then a whole run\<close>

lemma step_built:
  assumes "built rw a l" and "w (heap s a) = rw"
    and "step (LoggingWriter l) req x s = Some (e, s')"
  shows "w (heap s' a) = rw \<and> status (heap s' a) = status_step e (status (heap s a))
         \<and> size' (heap s' a) = size' (heap s a) + written e \<and> same_frame s s'"
  using assms
  by (cases x)
     (auto simp add: built_def same_frame_def real_defs logger_defs iface_defs Let_def
           split: prod.splits option.splits if_splits)

lemma same_frame_refl: "same_frame s s"
  by (simp add: same_frame_def)

lemma same_frame_trans: "same_frame s s1 \<Longrightarrow> same_frame s1 s2 \<Longrightarrow> same_frame s s2"
  by (simp add: same_frame_def)

lemma run_built:
  assumes "built rw a l"
  shows "w (heap s a) = rw \<Longrightarrow> run_handler xs (LoggingWriter l) req s = (c, es, s') \<Longrightarrow>
         w (heap s' a) = rw \<and> status (heap s' a) = track es (status (heap s a))
         \<and> size' (heap s' a) = size' (heap s a) + sum_list (map written es) \<and> same_frame s s'"
proof (induction xs arbitrary: s c es s')
  case Nil
  then show ?case by (simp add: same_frame_refl)
next
  case (Cons x xs)
  show ?case
  proof (cases "step (LoggingWriter l) req x s")
    case None
    with Cons.prems show ?thesis by (simp add: same_frame_refl)
  next
    case (Some p)
    obtain e s1 where p: "p = (e, s1)" by (cases p)
    obtain c1 es1 s2 where r: "run_handler xs (LoggingWriter l) req s1 = (c1, es1, s2)"
      by (cases "run_handler xs (LoggingWriter l) req s1")
    from Cons.prems(2) Some p r have eq: "c = c1" "es = e # es1" "s' = s2" by simp_all
    from step_built [OF assms Cons.prems(1)] Some p
    have st: "w (heap s1 a) = rw" "status (heap s1 a) = status_step e (status (heap s a))"
      "size' (heap s1 a) = size' (heap s a) + written e" "same_frame s s1" by simp_all
    from Cons.IH [OF st(1) r]
    have ih: "w (heap s2 a) = rw" "status (heap s2 a) = track es1 (status (heap s1 a))"
      "size' (heap s2 a) = size' (heap s1 a) + sum_list (map written es1)" "same_frame s1 s2"
      by simp_all
    show ?thesis
      using st ih same_frame_trans [OF st(4) ih(4)] by (simp add: eq add.assoc)
  qed
qed

lemma real_writes_append:
  "real_writes f h (cs1 @ cs2) = real_writes f h cs1 @ real_writes f (h @ cs1) cs2"
proof (induction cs1 arbitrary: h)
  case Nil
  then show ?case by simp
next
  case (Cons c cs1)
  then show ?case by (cases c) simp_all
qed

lemma handler_writes_Cons: "handler_writes (e # es) = handler_writes [e] @ handler_writes es"
  by (cases e) simp_all

lemma sum_written_writes:
  "sum_list (map written es) = sum_list (map (\<lambda>p. fst (snd p)) (handler_writes es))"
proof (induction es)
  case Nil
  then show ?case by simp
next
  case (Cons e es)
  then show ?case by (cases e) simp_all
qed

lemma step_forwards:
  assumes "built rw a l" and "w (heap s a) = rw"
    and "step (LoggingWriter l) req x s = Some (e, s')"
  shows "received (writers s' rw) =
           received (writers s rw) @ drop (length (received (writers s rw))) (received (writers s' rw))
       \<and> handler_writes [e] =
           real_writes (Write_impl (writers s rw)) (received (writers s rw))
             (drop (length (received (writers s rw))) (received (writers s' rw)))"
  using assms
  by (cases x)
     (auto simp add: built_def real_defs logger_defs iface_defs Let_def
           split: prod.splits option.splits if_splits)

lemma run_forwards:
  assumes "built rw a l"
  shows "w (heap s a) = rw \<Longrightarrow> run_handler xs (LoggingWriter l) req s = (c, es, s') \<Longrightarrow>
         \<exists>cs. received (writers s' rw) = received (writers s rw) @ cs
            \<and> handler_writes es =
                real_writes (Write_impl (writers s rw)) (received (writers s rw)) cs"
proof (induction xs arbitrary: s c es s')
  case Nil
  then show ?case by simp
next
  case (Cons x xs)
  show ?case
  proof (cases "step (LoggingWriter l) req x s")
    case None
    with Cons.prems show ?thesis by simp
  next
    case (Some p)
    obtain e s1 where p: "p = (e, s1)" by (cases p)
    obtain c1 es1 s2 where r: "run_handler xs (LoggingWriter l) req s1 = (c1, es1, s2)"
      by (cases "run_handler xs (LoggingWriter l) req s1")
    from Cons.prems(2) Some p r have eq: "c = c1" "es = e # es1" "s' = s2" by simp_all
    from step_built [OF assms Cons.prems(1)] Some p
    have st: "w (heap s1 a) = rw" "same_frame s s1" by simp_all
    from st(2) have f: "Write_impl (writers s1 rw) = Write_impl (writers s rw)"
      by (simp add: same_frame_def)
    from step_forwards [OF assms Cons.prems(1)] Some p obtain cs1
      where c1: "received (writers s1 rw) = received (writers s rw) @ cs1"
        "handler_writes [e] = real_writes (Write_impl (writers s rw)) (received (writers s rw)) cs1"
      by blast
    from Cons.IH [OF st(1) r] obtain cs2
      where c2: "received (writers s2 rw) = received (writers s1 rw) @ cs2"
        "handler_writes es1 =
           real_writes (Write_impl (writers s1 rw)) (received (writers s1 rw)) cs2"
      by blast
    have "received (writers s' rw) = received (writers s rw) @ (cs1 @ cs2)"
      by (simp add: eq c1(1) c2(1))
    moreover have "handler_writes es =
        real_writes (Write_impl (writers s rw)) (received (writers s rw)) (cs1 @ cs2)"
      using handler_writes_Cons [of e es1]
      by (simp only: eq real_writes_append c1(2) [symmetric] c2(2) f c1(1))
    ultimately show ?thesis by blast
  qed
qed

lemma track_append: "track (es @ fs) st = track fs (track es st)"
  by (induction es arbitrary: st) simp_all

lemma track_keeps:
  "st \<noteq> 0 \<Longrightarrow> \<not> list_ex is_WriteHeader es \<Longrightarrow> track es st = st"
proof (induction es arbitrary: st)
  case Nil
  then show ?case by simp
next
  case (Cons e es)
  then show ?case by (cases e) (auto split: prod.splits)
qed

lemma track_unset:
  "\<not> list_ex is_WriteHeader es \<Longrightarrow> \<not> list_ex is_Write es \<Longrightarrow> \<not> list_ex is_upgrade es \<Longrightarrow>
   track es st = st"
proof (induction es arbitrary: st)
  case Nil
  then show ?case by simp
next
  case (Cons e es)
  then show ?case by (cases e) (auto split: prod.splits)
qed

lemma track_written:
  "\<not> list_ex is_WriteHeader es \<Longrightarrow> list_ex is_Write es \<Longrightarrow> \<not> list_ex is_upgrade es \<Longrightarrow>
   track es 0 = 200"
proof (induction es)
  case Nil
  then show ?case by simp
next
  case (Cons e es)
  then show ?case by (cases e) (auto simp add: track_keeps track_unset split: prod.splits)
qed

lemma codes_Nil: "(codes es = []) = (\<not> list_ex is_WriteHeader es)"
  by (induction es rule: codes.induct) simp_all

lemma track_last_code:
  "codes es \<noteq> [] \<Longrightarrow> last (codes es) \<noteq> 0 \<Longrightarrow> track es st = last (codes es)"
proof (induction es arbitrary: st rule: codes.induct)
  case 1
  then show ?case by simp
next
  case (2 code es)
  show ?case
  proof (cases "codes es = []")
    case True
    with 2 show ?thesis by (simp add: track_keeps codes_Nil)
  next
    case False
    with 2 show ?thesis by simp
  qed
qed simp_all





lemma sint_small: "n < 2 ^ 63 \<Longrightarrow> sint (word_of_nat n :: go_int) = int n"
proof -
  assume "n < 2 ^ 63"
  then have "int n < 2 ^ 63" by (metis of_nat_less_iff of_nat_numeral of_nat_power)
  then have "signed_take_bit 63 (int n) = int n"
    by (simp add: signed_take_bit_int_eq_self)
  then show ?thesis by (simp add: signed_of_nat)
qed

lemma sum_complete:
  "list_all complete es \<Longrightarrow> sum_list (map written es) = word_of_nat (sum_list (map passed es))"
proof (induction es)
  case Nil
  then show ?case by simp
next
  case (Cons e es)
  then show ?case by (cases e) simp_all
qed

lemmas example_defs = plain_sink_def full_sink_def refusing_sink_def example_request_def
  connect_request_def example_lib_def example_world_def serve_example_def

lemmas logger_example_defs = example_logger_def example_start_def example_after_def

lemmas eval_defs = transactionAwareRequestLoggingHandler_ServeHTTP_def
  TransactionAwareRequestLoggingHandler_def writeRequestLog_def logrus_Info_def InfoLevel_def
  WarnLevel_def
  makeLogger_def new_responseLogger_def iface_defs real_defs logger_defs Let_def

lemma writeRequestLog_entry:
  "\<exists>fs. writeRequestLog L out req tid url ts st sz s = logrus_Info fs s
     \<and> log_status fs = st \<and> log_size fs = sz \<and> log_time fs = ts \<and> log_transaction_id fs = tid
     \<and> log_uri fs =
         (let r = requests s req;
              uri = (if ProtoMajor r = 2 \<and> Method r = ''CONNECT'' then Host r else RequestURI r)
          in if uri = [] then URL_RequestURI L url else uri)"
  unfolding writeRequestLog_def Let_def
  by (rule exI, intro conjI, rule refl) simp_all

lemma ServeHTTP_unfold:
  assumes "makeLogger rw s = (l, s1)"
    and "run_handler (handler h) (LoggingWriter l) req s1 = (c, es, s2)"
  shows "transactionAwareRequestLoggingHandler_ServeHTTP L h rw req s =
           (case URL (requests s req) of
              None \<Rightarrow> (Panicked, [], s1)
            | Some url \<Rightarrow>
                (case c of
                   Panicked \<Rightarrow> (Panicked, es, s2)
                 | Returned \<Rightarrow>
                     (Returned, es,
                      writeRequestLog L (writer h) req
                        (GetTransactionIdFromRequest L (requests s req)) url (clock s)
                        (call_Status l s2) (call_Size l s2) s2)))"
  using assms makeLogger_built(4) [OF assms(1)]
  by (simp add: transactionAwareRequestLoggingHandler_ServeHTTP_def
        split: option.splits completion.splits)

lemma ServeHTTP_Returned:
  assumes "transactionAwareRequestLoggingHandler_ServeHTTP L h rw req s = (Returned, es, s')"
  obtains l s1 s2 url where "makeLogger rw s = (l, s1)" and "URL (requests s req) = Some url"
    and "run_handler (handler h) (LoggingWriter l) req s1 = (Returned, es, s2)"
    and "s' = writeRequestLog L (writer h) req (GetTransactionIdFromRequest L (requests s req))
                url (clock s) (call_Status l s2) (call_Size l s2) s2"
proof -
  obtain l s1 where m: "makeLogger rw s = (l, s1)" by (cases "makeLogger rw s")
  obtain c es2 s2 where r: "run_handler (handler h) (LoggingWriter l) req s1 = (c, es2, s2)"
    by (cases "run_handler (handler h) (LoggingWriter l) req s1")
  show thesis
  proof (cases "URL (requests s req)")
    case None
    with assms ServeHTTP_unfold [OF m r, of L] show thesis by simp
  next
    case (Some url)
    show thesis
    proof (cases c)
      case Panicked
      with assms Some ServeHTTP_unfold [OF m r, of L] show thesis by simp
    next
      case Returned
      with assms Some ServeHTTP_unfold [OF m r, of L]
      have "es2 = es" and "s' = writeRequestLog L (writer h) req
          (GetTransactionIdFromRequest L (requests s req)) url (clock s)
          (call_Status l s2) (call_Size l s2) s2"
        by simp_all
      with that [OF m Some] r Returned show thesis by simp
    qed
  qed
qed


lemma ServeHTTP_logged:
  assumes "transactionAwareRequestLoggingHandler_ServeHTTP L h rw req s = (Returned, es, s')"
  shows "logrus_std s' \<noteq> []"
    and "log_status (last (logrus_std s')) = track es 0"
    and "log_size (last (logrus_std s')) = sum_list (map written es)"
proof -
  from assms obtain l s1 s2 url where m: "makeLogger rw s = (l, s1)"
    and r: "run_handler (handler h) (LoggingWriter l) req s1 = (Returned, es, s2)"
    and s': "s' = writeRequestLog L (writer h) req (GetTransactionIdFromRequest L (requests s req))
                url (clock s) (call_Status l s2) (call_Size l s2) s2"
    by (rule ServeHTTP_Returned)
  note b = makeLogger_built [OF m]
  from run_built [OF b(1) _ r] b(2)
  have t: "status (heap s2 (tracker l)) = track es 0"
    "size' (heap s2 (tracker l)) = sum_list (map written es)"
    by simp_all
  from writeRequestLog_entry [of L "writer h" req "GetTransactionIdFromRequest L (requests s req)"
      url "clock s" "call_Status l s2" "call_Size l s2" s2]
  obtain fs where fs: "s' = logrus_Info fs s2" "log_status fs = call_Status l s2"
    "log_size fs = call_Size l s2"
    unfolding s' by blast
  show "logrus_std s' \<noteq> []" by (simp add: fs(1) logrus_Info_def)
  show "log_status (last (logrus_std s')) = track es 0"
    by (simp add: fs logrus_Info_def call_Status_built [OF b(1)] t)
  show "log_size (last (logrus_std s')) = sum_list (map written es)"
    by (simp add: fs logrus_Info_def call_Size_built [OF b(1)] t)
qed

lemma collapse3: "fst r = c \<Longrightarrow> r = (c, fst (snd r), snd (snd r))"
  by (cases r) simp

subsection \<open>The logged status\<close>

text \<open>
  Claim C3, amended. Let the inner handler return, and read the events of its run on
  the observing sink.
  \<^item> If it called \<open>WriteHeader\<close> at least once and the code of the last such call is
    not 0, the logged status is that code, wherever the writes stand.
  \<^item> If it never called \<open>WriteHeader\<close>, performed no successful upgrade and called
    \<open>Write\<close> at least once (with any number of bytes, none included), the logged
    status is 200.
  \<^item> If it never called \<open>WriteHeader\<close> nor \<open>Write\<close> and performed no successful
    upgrade, the logged status is 0.
\<close>

theorem logged_status:
  assumes "transactionAwareRequestLoggingHandler_ServeHTTP L h rw req s = (Returned, es, s')"
  shows "(codes es \<noteq> [] \<and> last (codes es) \<noteq> 0 \<longrightarrow>
            log_status (last (logrus_std s')) = last (codes es))
       \<and> (codes es = [] \<and> \<not> list_ex is_upgrade es \<and> list_ex is_Write es \<longrightarrow>
            log_status (last (logrus_std s')) = 200)
       \<and> (codes es = [] \<and> \<not> list_ex is_upgrade es \<and> \<not> list_ex is_Write es \<longrightarrow>
            log_status (last (logrus_std s')) = 0)"
  unfolding ServeHTTP_logged(2) [OF assms]
  by (simp add: track_last_code track_written track_unset codes_Nil)


text \<open>The three cases of C3 at three handlers: \<open>WriteHeader(404)\<close> and a write, a
  write alone, and neither.\<close>

theorem logged_status_witness:
  "fst (serve_example plain_sink example_request [DoWriteHeader 404, DoWrite ''not found''])
     = Returned
   \<and> codes (fst (snd (serve_example plain_sink example_request
         [DoWriteHeader 404, DoWrite ''not found'']))) = [404]
   \<and> log_status (last (logrus_std (snd (snd
         (serve_example plain_sink example_request [DoWriteHeader 404, DoWrite ''not found''])))))
       = 404
   \<and> fst (serve_example plain_sink example_request [DoWrite ''0123456789'']) = Returned
   \<and> fst (snd (serve_example plain_sink example_request [DoWrite ''0123456789'']))
       = [EvWrite ''0123456789'' 10 None]
   \<and> log_status (last (logrus_std (snd (snd
         (serve_example plain_sink example_request [DoWrite ''0123456789''])))))
       = 200
   \<and> fst (serve_example plain_sink example_request [DoHeader, DoFlush]) = Returned
   \<and> fst (snd (serve_example plain_sink example_request [DoHeader, DoFlush]))
       = [EvHeader, EvFlush]
   \<and> log_status (last (logrus_std (snd (snd
         (serve_example plain_sink example_request [DoHeader, DoFlush])))))
       = 0"
proof -
  have r1: "fst (serve_example plain_sink example_request
                   [DoWriteHeader 404, DoWrite ''not found'']) = Returned"
    and r2: "fst (serve_example plain_sink example_request [DoWrite ''0123456789'']) = Returned"
    and r3: "fst (serve_example plain_sink example_request [DoHeader, DoFlush]) = Returned"
    by (simp_all add: example_defs eval_defs)
  show ?thesis
    using logged_status [OF collapse3 [OF r1 [unfolded serve_example_def]]]
      logged_status [OF collapse3 [OF r2 [unfolded serve_example_def]]]
      logged_status [OF collapse3 [OF r3 [unfolded serve_example_def]]]
    by (simp add: example_defs eval_defs)
qed

text \<open>
  C3 as first stated fails in three ways. A handler whose only call is a successful
  \<open>Hijack\<close> writes nothing and never sets a status, and the logged status is 101, not
  0. After \<open>WriteHeader(0)\<close> and a write the logged status is 200, not the last code
  set. A \<open>Write\<close> of no bytes writes nothing, and the logged status is 200, not 0.
\<close>

theorem logged_status_counterexample:
  "fst (snd (serve_example full_sink example_request [DoHijack])) = [EvHijack (1, 2, None)]
   \<and> log_status (last (logrus_std (snd (snd
         (serve_example full_sink example_request [DoHijack]))))) = 101
   \<and> fst (snd (serve_example plain_sink example_request [DoWriteHeader 0, DoWrite ''x'']))
       = [EvWriteHeader 0, EvWrite ''x'' 1 None]
   \<and> log_status (last (logrus_std (snd (snd
         (serve_example plain_sink example_request [DoWriteHeader 0, DoWrite ''x''])))))
       = 200
   \<and> fst (snd (serve_example plain_sink example_request [DoWrite []])) = [EvWrite [] 0 None]
   \<and> log_status (last (logrus_std (snd (snd
         (serve_example plain_sink example_request [DoWrite []]))))) = 200"
  by (simp add: example_defs eval_defs)

subsection \<open>The logged size\<close>

text \<open>
  Claim C4, amended. When the inner handler returns, the logged size is the sum, in Go's
  \<open>int\<close> arithmetic, of the counts that the real sink's \<open>Write\<close> returned for the
  write calls of the handler: the real sink has received, after what it had received
  before, calls among which the writes are those of the handler, in order and with the
  same bytes; each returned to the handler what the real sink returned for it; and the
  logged size is the sum of the counts the real sink returned. When every write was
  reported complete (the count returned is the number of bytes passed), it is the sum of
  the byte counts passed to the write calls, as an \<open>int\<close>; and it reads as exactly
  that sum when the sum is below \<open>2 ^ 63\<close>.
\<close>

theorem logged_size:
  assumes "transactionAwareRequestLoggingHandler_ServeHTTP L h rw req s = (Returned, es, s')"
  shows "(\<exists>cs. received (writers s' rw) = received (writers s rw) @ cs
            \<and> handler_writes es =
                real_writes (Write_impl (writers s rw)) (received (writers s rw)) cs
            \<and> log_size (last (logrus_std s')) =
                sum_list (map (\<lambda>p. fst (snd p))
                  (real_writes (Write_impl (writers s rw)) (received (writers s rw)) cs)))
       \<and> log_size (last (logrus_std s')) = sum_list (map written es)
       \<and> (list_all complete es \<longrightarrow>
            log_size (last (logrus_std s')) = word_of_nat (sum_list (map passed es)))
       \<and> (list_all complete es \<and> sum_list (map passed es) < 2 ^ 63 \<longrightarrow>
            sint (log_size (last (logrus_std s'))) = int (sum_list (map passed es)))"
proof -
  from assms obtain l s1 s2 url where m: "makeLogger rw s = (l, s1)"
    and r: "run_handler (handler h) (LoggingWriter l) req s1 = (Returned, es, s2)"
    and s': "s' = writeRequestLog L (writer h) req (GetTransactionIdFromRequest L (requests s req))
                url (clock s) (call_Status l s2) (call_Size l s2) s2"
    by (rule ServeHTTP_Returned)
  note b = makeLogger_built [OF m]
  have sz: "log_size (last (logrus_std s')) = sum_list (map written es)"
    by (rule ServeHTTP_logged(3) [OF assms])
  from b(2) have "w (heap s1 (tracker l)) = rw" by simp
  from run_forwards [OF b(1) this r] obtain cs
    where cs: "received (writers s2 rw) = received (writers s1 rw) @ cs"
      "handler_writes es =
         real_writes (Write_impl (writers s1 rw)) (received (writers s1 rw)) cs"
    by blast
  have "writers s' = writers s2"
    using writeRequestLog_entry [of L "writer h" req
        "GetTransactionIdFromRequest L (requests s req)" url "clock s" "call_Status l s2"
        "call_Size l s2" s2]
    by (auto simp add: s' logrus_Info_def)
  with cs b(3)
  have "received (writers s' rw) = received (writers s rw) @ cs
      \<and> handler_writes es =
          real_writes (Write_impl (writers s rw)) (received (writers s rw)) cs
      \<and> log_size (last (logrus_std s')) =
          sum_list (map (\<lambda>p. fst (snd p))
            (real_writes (Write_impl (writers s rw)) (received (writers s rw)) cs))"
    by (simp add: sz sum_written_writes)
  then have "\<exists>cs. received (writers s' rw) = received (writers s rw) @ cs
      \<and> handler_writes es =
          real_writes (Write_impl (writers s rw)) (received (writers s rw)) cs
      \<and> log_size (last (logrus_std s')) =
          sum_list (map (\<lambda>p. fst (snd p))
            (real_writes (Write_impl (writers s rw)) (received (writers s rw)) cs))"
    by (rule exI)
  then show ?thesis
    unfolding sz by (simp add: sum_complete sint_small)
qed

text \<open>C4 at a handler that sets 404 and writes nine bytes, all accepted.\<close>

theorem logged_size_witness:
  "fst (serve_example plain_sink example_request [DoWriteHeader 404, DoWrite ''not found''])
     = Returned
   \<and> list_all complete (fst (snd
         (serve_example plain_sink example_request [DoWriteHeader 404, DoWrite ''not found''])))
   \<and> sum_list (map passed (fst (snd
         (serve_example plain_sink example_request [DoWriteHeader 404, DoWrite ''not found'']))))
       < 2 ^ 63
   \<and> log_size (last (logrus_std (snd (snd
         (serve_example plain_sink example_request [DoWriteHeader 404, DoWrite ''not found''])))))
       = 9
   \<and> sint (log_size (last (logrus_std (snd (snd
         (serve_example plain_sink example_request
            [DoWriteHeader 404, DoWrite ''not found'']))))))
       = 9
   \<and> received (writers (snd (snd
         (serve_example plain_sink example_request
            [DoWriteHeader 404, DoWrite ''not found'']))) 0)
       = [CallWriteHeader 404, CallWrite ''not found'']"
proof -
  have r: "fst (serve_example plain_sink example_request
                  [DoWriteHeader 404, DoWrite ''not found'']) = Returned"
    by (simp add: example_defs eval_defs)
  show ?thesis
    using logged_size [OF collapse3 [OF r [unfolded serve_example_def]]]
    by (simp add: example_defs eval_defs)
qed

text \<open>C4 as first stated fails where the real sink reports a short write: three bytes
  are passed to one write call, the sink accepts none, and the logged size is 0.\<close>

theorem logged_size_counterexample:
  "fst (serve_example refusing_sink example_request [DoWrite ''abc'']) = Returned
   \<and> sum_list (map passed (fst (snd
         (serve_example refusing_sink example_request [DoWrite ''abc'']))))
       = 3
   \<and> log_size (last (logrus_std (snd (snd
         (serve_example refusing_sink example_request [DoWrite ''abc''])))))
       = 0"
  by (simp add: example_defs eval_defs)

subsection \<open>The logged URI\<close>

text \<open>
  Claim C8, amended. When the inner handler returns, the logged URI is, of the request
  as it is when the record is written, after the inner handler ran, the field
  \<open>RequestURI\<close>, or the field \<open>Host\<close> when that request is an HTTP/2
  \<open>CONNECT\<close>; and when this string is empty, it is the \<open>RequestURI()\<close> of the copy
  of \<open>*req.URL\<close> taken before the inner handler ran. When the inner handler leaves
  the request as it arrived, these are the fields of the inbound request.
\<close>

theorem logged_uri:
  assumes "transactionAwareRequestLoggingHandler_ServeHTTP L h rw req s = (Returned, es, s')"
    and "URL (requests s req) = Some url"
  shows "log_uri (last (logrus_std s')) =
           (let r = requests s' req;
                uri = (if ProtoMajor r = 2 \<and> Method r = ''CONNECT'' then Host r else RequestURI r)
            in if uri = [] then URL_RequestURI L url else uri)
       \<and> (requests s' req = requests s req \<longrightarrow>
            log_uri (last (logrus_std s')) =
              (let r = requests s req;
                   uri = (if ProtoMajor r = 2 \<and> Method r = ''CONNECT'' then Host r
                          else RequestURI r)
               in if uri = [] then URL_RequestURI L url else uri))"
proof -
  from assms(1) obtain l s1 s2 url' where m: "makeLogger rw s = (l, s1)"
    and u: "URL (requests s req) = Some url'"
    and s': "s' = writeRequestLog L (writer h) req (GetTransactionIdFromRequest L (requests s req))
                url' (clock s) (call_Status l s2) (call_Size l s2) s2"
    by (rule ServeHTTP_Returned)
  from u assms(2) have url: "url' = url" by simp
  from writeRequestLog_entry [of L "writer h" req "GetTransactionIdFromRequest L (requests s req)"
      url "clock s" "call_Status l s2" "call_Size l s2" s2]
  obtain fs where fs: "s' = logrus_Info fs s2"
    "log_uri fs =
       (let r = requests s2 req;
            uri = (if ProtoMajor r = 2 \<and> Method r = ''CONNECT'' then Host r else RequestURI r)
        in if uri = [] then URL_RequestURI L url else uri)"
    unfolding s' url by blast
  have "requests s' = requests s2" by (simp add: fs(1) logrus_Info_def)
  then have "log_uri (last (logrus_std s')) =
           (let r = requests s' req;
                uri = (if ProtoMajor r = 2 \<and> Method r = ''CONNECT'' then Host r else RequestURI r)
            in if uri = [] then URL_RequestURI L url else uri)"
    by (simp add: fs logrus_Info_def)
  then show ?thesis by simp
qed

text \<open>C8 at the HTTP/2 \<open>CONNECT\<close> request with an empty raw URI and the host
  \<open>proxy.example:443\<close>, which its handler leaves as it arrived, and at a request
  with an empty raw URI whose handler replaces the request's \<open>URL\<close>: the logged URI
  comes from the copy taken before.\<close>

theorem logged_uri_witness:
  "fst (serve_example plain_sink connect_request [DoHijack]) = Returned
   \<and> URL (requests (example_world plain_sink connect_request) 0)
       = Some \<lparr>Scheme = [], Opaque = [], User = None, Path = [], RawQuery = []\<rparr>
   \<and> requests (snd (snd (serve_example plain_sink connect_request [DoHijack]))) 0
       = requests (example_world plain_sink connect_request) 0
   \<and> log_uri (last (logrus_std (snd (snd
         (serve_example plain_sink connect_request [DoHijack])))))
       = ''proxy.example:443''
   \<and> fst (serve_example plain_sink (example_request\<lparr>RequestURI := []\<rparr>)
          [DoAssign (connect_request\<lparr>Method := ''GET''\<rparr>)]) = Returned
   \<and> URL (requests (example_world plain_sink (example_request\<lparr>RequestURI := []\<rparr>)) 0)
       = Some \<lparr>Scheme = [], Opaque = [], User = None, Path = ''/things/1'', RawQuery = []\<rparr>
   \<and> log_uri (last (logrus_std (snd (snd
         (serve_example plain_sink (example_request\<lparr>RequestURI := []\<rparr>)
            [DoAssign (connect_request\<lparr>Method := ''GET''\<rparr>)])))))
       = ''/things/1''"
proof -
  have r1: "fst (serve_example plain_sink connect_request [DoHijack]) = Returned"
    and u1: "URL (requests (example_world plain_sink connect_request) 0)
             = Some \<lparr>Scheme = [], Opaque = [], User = None, Path = [], RawQuery = []\<rparr>"
    and r2: "fst (serve_example plain_sink (example_request\<lparr>RequestURI := []\<rparr>)
                [DoAssign (connect_request\<lparr>Method := ''GET''\<rparr>)]) = Returned"
    and u2: "URL (requests (example_world plain_sink (example_request\<lparr>RequestURI := []\<rparr>)) 0)
             = Some \<lparr>Scheme = [], Opaque = [], User = None, Path = ''/things/1'',
                     RawQuery = []\<rparr>"
    by (simp_all add: example_defs eval_defs)
  show ?thesis
    using logged_uri [OF collapse3 [OF r1 [unfolded serve_example_def]] u1]
      logged_uri [OF collapse3 [OF r2 [unfolded serve_example_def]] u2]
    by (simp add: example_defs eval_defs)
qed

text \<open>C8 as first stated fails for a request whose inner handler assigns to the request:
  it arrived with the raw URI \<open>/things/1\<close>, the handler sets \<open>RequestURI\<close> to
  \<open>/forged\<close>, and the logged URI is \<open>/forged\<close>.\<close>

theorem logged_uri_counterexample:
  "RequestURI (requests (example_world plain_sink example_request) 0) = ''/things/1''
   \<and> fst (serve_example plain_sink example_request
          [DoAssign (example_request\<lparr>RequestURI := ''/forged''\<rparr>)]) = Returned
   \<and> log_uri (last (logrus_std (snd (snd
         (serve_example plain_sink example_request
            [DoAssign (example_request\<lparr>RequestURI := ''/forged''\<rparr>)])))))
       = ''/forged''"
  by (simp add: example_defs eval_defs)

subsection \<open>One record, after the inner handler has returned\<close>

text \<open>
  Claim C7, amended. Take the sink that \<open>makeLogger\<close> builds and the run of the inner
  handler on it. The run hands no record to logrus and none is written out. If the
  request's \<open>URL\<close> is set and the inner handler returns, \<open>ServeHTTP\<close> returns and
  hands exactly one record to logrus' standard logger, after the run, with the status
  and the size that the sink holds in the world the handler left; the standard logger
  writes out exactly this one record when its level admits Info, and writes out nothing
  when its level is stricter. If the inner handler does not return, \<open>ServeHTTP\<close> does
  not return either, and no record is handed over or written out; nor is one when the
  \<open>URL\<close> pointer is nil.
\<close>

theorem one_record_after_return:
  assumes "makeLogger rw s = (l, s1)"
    and "run_handler (handler h) (LoggingWriter l) req s1 = (c, es, s2)"
  shows "logrus_std s2 = logrus_std s \<and> logrus_out s2 = logrus_out s
       \<and> (URL (requests s req) = None \<longrightarrow>
            transactionAwareRequestLoggingHandler_ServeHTTP L h rw req s = (Panicked, [], s1)
            \<and> logrus_std s1 = logrus_std s \<and> logrus_out s1 = logrus_out s)
       \<and> (URL (requests s req) \<noteq> None \<and> c = Panicked \<longrightarrow>
            transactionAwareRequestLoggingHandler_ServeHTTP L h rw req s = (Panicked, es, s2))
       \<and> (URL (requests s req) \<noteq> None \<and> c = Returned \<longrightarrow>
            (\<exists>fs. transactionAwareRequestLoggingHandler_ServeHTTP L h rw req s =
                    (Returned, es, logrus_Info fs s2)
                  \<and> logrus_std (logrus_Info fs s2) = logrus_std s @ [fs]
                  \<and> logrus_out (logrus_Info fs s2) =
                      logrus_out s @ (if InfoLevel \<le> logrus_level s then [fs] else [])
                  \<and> log_status fs = call_Status l s2 \<and> log_size fs = call_Size l s2))"
proof -
  note b = makeLogger_built [OF assms(1)]
  from run_built [OF b(1) _ assms(2)] b(2) have "same_frame s1 s2" by simp
  with b(6) b(9) b(10) have log: "logrus_std s2 = logrus_std s" "logrus_out s2 = logrus_out s"
    "logrus_level s2 = logrus_level s"
    by (simp_all add: same_frame_def)
  have ret: "\<exists>fs. transactionAwareRequestLoggingHandler_ServeHTTP L h rw req s =
                    (Returned, es, logrus_Info fs s2)
                  \<and> logrus_std (logrus_Info fs s2) = logrus_std s @ [fs]
                  \<and> logrus_out (logrus_Info fs s2) =
                      logrus_out s @ (if InfoLevel \<le> logrus_level s then [fs] else [])
                  \<and> log_status fs = call_Status l s2 \<and> log_size fs = call_Size l s2"
    if u: "URL (requests s req) = Some url" and c: "c = Returned" for url
  proof -
    from writeRequestLog_entry [of L "writer h" req
        "GetTransactionIdFromRequest L (requests s req)" url "clock s" "call_Status l s2"
        "call_Size l s2" s2]
    obtain fs where fs: "writeRequestLog L (writer h) req
        (GetTransactionIdFromRequest L (requests s req)) url (clock s) (call_Status l s2)
        (call_Size l s2) s2 = logrus_Info fs s2"
      "log_status fs = call_Status l s2" "log_size fs = call_Size l s2"
      by blast
    have "transactionAwareRequestLoggingHandler_ServeHTTP L h rw req s =
            (Returned, es, logrus_Info fs s2)"
      by (simp add: ServeHTTP_unfold [OF assms] u c fs(1))
    moreover have "logrus_std (logrus_Info fs s2) = logrus_std s @ [fs]"
      by (simp add: logrus_Info_def log)
    moreover have "logrus_out (logrus_Info fs s2) =
        logrus_out s @ (if InfoLevel \<le> logrus_level s then [fs] else [])"
      by (simp add: logrus_Info_def log)
    ultimately show ?thesis using fs(2,3) by blast
  qed
  show ?thesis
  proof (intro conjI impI)
    show "logrus_std s2 = logrus_std s" by (rule log)
    show "logrus_out s2 = logrus_out s" by (rule log)
    show "transactionAwareRequestLoggingHandler_ServeHTTP L h rw req s = (Panicked, [], s1)"
      if "URL (requests s req) = None"
      using that by (simp add: ServeHTTP_unfold [OF assms])
    show "logrus_std s1 = logrus_std s" by (rule b(6))
    show "logrus_out s1 = logrus_out s" by (rule b(10))
    show "transactionAwareRequestLoggingHandler_ServeHTTP L h rw req s = (Panicked, es, s2)"
      if "URL (requests s req) \<noteq> None \<and> c = Panicked"
      using that by (auto simp add: ServeHTTP_unfold [OF assms])
    show "\<exists>fs. transactionAwareRequestLoggingHandler_ServeHTTP L h rw req s =
                    (Returned, es, logrus_Info fs s2)
                  \<and> logrus_std (logrus_Info fs s2) = logrus_std s @ [fs]
                  \<and> logrus_out (logrus_Info fs s2) =
                      logrus_out s @ (if InfoLevel \<le> logrus_level s then [fs] else [])
                  \<and> log_status fs = call_Status l s2 \<and> log_size fs = call_Size l s2"
      if "URL (requests s req) \<noteq> None \<and> c = Returned"
    proof -
      from that obtain url where "URL (requests s req) = Some url" and "c = Returned" by auto
      then show ?thesis by (rule ret)
    qed
  qed
qed

text \<open>C7 at a handler that returns, at one that panics after a call, at a request
  with a nil \<open>URL\<close>, and at a standard logger whose level is \<open>WarnLevel\<close>.\<close>

theorem one_record_after_return_witness:
  "URL (requests (example_world plain_sink example_request) 0) \<noteq> None
   \<and> fst (serve_example plain_sink example_request [DoWriteHeader 404, DoWrite ''not found''])
       = Returned
   \<and> InfoLevel \<le> logrus_level (example_world plain_sink example_request)
   \<and> map (\<lambda>fs. (log_status fs, log_size fs)) (logrus_out (snd (snd
         (serve_example plain_sink example_request [DoWriteHeader 404, DoWrite ''not found'']))))
       = [(404, 9)]
   \<and> map (\<lambda>fs. (log_status fs, log_size fs)) (logrus_std (snd (snd
         (serve_example plain_sink example_request [DoWriteHeader 404, DoWrite ''not found'']))))
       = [(404, 9)]
   \<and> fst (serve_example plain_sink example_request [DoWriteHeader 404, DoPanic]) = Panicked
   \<and> logrus_std (snd (snd
         (serve_example plain_sink example_request [DoWriteHeader 404, DoPanic]))) = []
   \<and> logrus_out (snd (snd
         (serve_example plain_sink example_request [DoWriteHeader 404, DoPanic]))) = []
   \<and> URL (requests (example_world plain_sink (example_request\<lparr>URL := None\<rparr>)) 0) = None
   \<and> serve_example plain_sink (example_request\<lparr>URL := None\<rparr>) [DoWrite ''a'']
       = (Panicked, [], snd (makeLogger 0 (example_world plain_sink
                                             (example_request\<lparr>URL := None\<rparr>))))
   \<and> \<not> InfoLevel \<le> logrus_level (quiet_world plain_sink example_request)
   \<and> fst (transactionAwareRequestLoggingHandler_ServeHTTP example_lib
            (TransactionAwareRequestLoggingHandler 0 [DoWrite ''a'']) 0 0
            (quiet_world plain_sink example_request)) = Returned
   \<and> logrus_out (snd (snd (transactionAwareRequestLoggingHandler_ServeHTTP example_lib
            (TransactionAwareRequestLoggingHandler 0 [DoWrite ''a'']) 0 0
            (quiet_world plain_sink example_request)))) = []"
proof -
  have m1: "makeLogger 0 (example_world plain_sink example_request)
            = (example_logger plain_sink, example_start plain_sink)"
    by (simp add: logger_example_defs)
  have r1: "run_handler (handler (TransactionAwareRequestLoggingHandler 0
                [DoWriteHeader 404, DoWrite ''not found'']))
              (LoggingWriter (example_logger plain_sink)) 0 (example_start plain_sink)
            = (Returned, [EvWriteHeader 404, EvWrite ''not found'' 9 None],
               example_after plain_sink [DoWriteHeader 404, DoWrite ''not found'']
                 (example_start plain_sink))"
    and r2: "run_handler (handler (TransactionAwareRequestLoggingHandler 0
                [DoWriteHeader 404, DoPanic]))
              (LoggingWriter (example_logger plain_sink)) 0 (example_start plain_sink)
            = (Panicked, [EvWriteHeader 404],
               example_after plain_sink [DoWriteHeader 404, DoPanic]
                 (example_start plain_sink))"
    by (simp_all add: logger_example_defs example_defs eval_defs)
  have m3: "makeLogger 0 (example_world plain_sink (example_request\<lparr>URL := None\<rparr>))
      = (PtrResponseLogger 0,
         snd (makeLogger 0 (example_world plain_sink (example_request\<lparr>URL := None\<rparr>))))"
    by (simp add: prod_eq_iff makeLogger_fst example_defs)
  have r3: "run_handler (handler (TransactionAwareRequestLoggingHandler 0 [DoWrite ''a'']))
              (LoggingWriter (PtrResponseLogger 0)) 0
              (snd (makeLogger 0 (example_world plain_sink (example_request\<lparr>URL := None\<rparr>))))
            = (Returned, [EvWrite ''a'' 1 None],
               snd (snd (run_handler [DoWrite ''a''] (LoggingWriter (PtrResponseLogger 0)) 0
                 (snd (makeLogger 0
                    (example_world plain_sink (example_request\<lparr>URL := None\<rparr>)))))))"
    by (simp add: example_defs eval_defs)
  have m4: "makeLogger 0 (quiet_world plain_sink example_request)
      = (PtrResponseLogger 0, snd (makeLogger 0 (quiet_world plain_sink example_request)))"
    by (simp add: prod_eq_iff makeLogger_fst example_defs quiet_world_def)
  have r4: "run_handler (handler (TransactionAwareRequestLoggingHandler 0 [DoWrite ''a'']))
              (LoggingWriter (PtrResponseLogger 0)) 0
              (snd (makeLogger 0 (quiet_world plain_sink example_request)))
            = (Returned, [EvWrite ''a'' 1 None],
               snd (snd (run_handler [DoWrite ''a''] (LoggingWriter (PtrResponseLogger 0)) 0
                 (snd (makeLogger 0 (quiet_world plain_sink example_request))))))"
    by (simp add: example_defs eval_defs quiet_world_def)
  show ?thesis
    using one_record_after_return [OF m1 r1, of example_lib]
      one_record_after_return [OF m1 r2, of example_lib]
      one_record_after_return [OF m3 r3, of example_lib]
      one_record_after_return [OF m4 r4, of example_lib]
    by (simp add: logger_example_defs example_defs eval_defs quiet_world_def)
qed

text \<open>C7 as first stated fails for a request whose inner handler does not return: the
  handler writes and then panics, the real sink has received the write, and no record
  is emitted. It fails too when the level of logrus' standard logger is
  \<open>WarnLevel\<close>: the handler returns and no record is written out.\<close>

theorem one_record_after_return_counterexample:
  "fst (serve_example plain_sink example_request [DoWrite ''partial'', DoPanic]) = Panicked
   \<and> received (writers (snd (snd
         (serve_example plain_sink example_request [DoWrite ''partial'', DoPanic]))) 0)
       = [CallWrite ''partial'']
   \<and> logrus_std (snd (snd
         (serve_example plain_sink example_request [DoWrite ''partial'', DoPanic])))
       = []
   \<and> logrus_out (snd (snd
         (serve_example plain_sink example_request [DoWrite ''partial'', DoPanic])))
       = []
   \<and> fst (transactionAwareRequestLoggingHandler_ServeHTTP example_lib
            (TransactionAwareRequestLoggingHandler 0 [DoWrite ''a'']) 0 0
            (quiet_world plain_sink example_request)) = Returned
   \<and> logrus_out (snd (snd (transactionAwareRequestLoggingHandler_ServeHTTP example_lib
            (TransactionAwareRequestLoggingHandler 0 [DoWrite ''a'']) 0 0
            (quiet_world plain_sink example_request)))) = []"
  by (simp add: example_defs eval_defs quiet_world_def)

subsection \<open>Where the record goes\<close>

text \<open>
  Claim C2 says that the record is written to the \<open>io.Writer\<close> given to
  \<open>TransactionAwareRequestLoggingHandler\<close>. \<open>writeRequestLog\<close> receives that
  writer and never uses it: for a request whose handler writes five bytes, the writer
  has received nothing when \<open>ServeHTTP\<close> has returned, and the one record is with
  logrus' standard logger.
\<close>

theorem writer_not_written:
  "fst (serve_example plain_sink example_request [DoWrite ''hello'']) = Returned
   \<and> outs (snd (snd (serve_example plain_sink example_request [DoWrite ''hello'']))) 0 = []
   \<and> map log_size (logrus_std (snd (snd
         (serve_example plain_sink example_request [DoWrite ''hello''])))) = [5]"
  by (simp add: example_defs eval_defs)



subsection \<open>The tracked status\<close>



lemma makeLogger_Hijacker:
  assumes "makeLogger rw s = (l, s1)"
  shows "implements (method_set l) http_Hijacker = (Hijack_impl (writers s rw) \<noteq> None)"
proof -
  have "l = fst (makeLogger rw s)" using assms by simp
  then show ?thesis by (simp add: makeLogger_fst iface_defs)
qed

lemma call_Hijack_built:
  assumes "built rw a l" and "implements (method_set l) http_Hijacker"
    and "w (heap s a) = rw" and "Hijack_impl (writers s rw) = Some f"
  shows "call_Hijack l s =
           Some (f (received (writers s rw)),
                 if snd (snd (f (received (writers s rw)))) = None \<and> status (heap s a) = 0
                 then set_status a StatusSwitchingProtocols (receive rw CallHijack s)
                 else receive rw CallHijack s)"
  using assms
  by (auto simp add: built_def iface_defs hijackLogger_Hijack_def real_Hijack_def receive_def
        split: prod.splits)

subsection \<open>Hijack\<close>

text \<open>
  Claim C6. Let \<open>makeLogger\<close> build a sink that passes the \<open>http.Hijacker\<close>
  assertion, and let a handler have run on it. Then \<open>Hijack\<close> on this sink does not
  panic; it calls \<open>Hijack\<close> on the real sink, which receives exactly this one call
  more, and returns what the real sink returned; the status becomes 101 if the returned
  error is nil and the status was 0, and is unchanged otherwise (on an error, and when
  it was already set); the size is unchanged.
\<close>

theorem Hijack_forwards:
  assumes "makeLogger rw s = (l, s1)"
    and "implements (method_set l) http_Hijacker"
    and "run_handler xs (LoggingWriter l) req s1 = (Returned, es, s2)"
  shows "\<exists>f s3. Hijack_impl (writers s2 rw) = Some f
           \<and> call_Hijack l s2 = Some (f (received (writers s2 rw)), s3)
           \<and> received (writers s3 rw) = received (writers s2 rw) @ [CallHijack]
           \<and> call_Status l s3 =
               (if snd (snd (f (received (writers s2 rw)))) = None \<and> call_Status l s2 = 0
                then 101 else call_Status l s2)
           \<and> call_Size l s3 = call_Size l s2"
proof -
  note b = makeLogger_built [OF assms(1)]
  from run_built [OF b(1) _ assms(3)] b(2)
  have r: "w (heap s2 (tracker l)) = rw" "same_frame s1 s2" by simp_all
  from assms(2) makeLogger_Hijacker [OF assms(1)] obtain f
    where "Hijack_impl (writers s rw) = Some f" by auto
  with r(2) b(3) have f: "Hijack_impl (writers s2 rw) = Some f"
    by (simp add: same_frame_def)
  let ?s3 = "if snd (snd (f (received (writers s2 rw)))) = None \<and> status (heap s2 (tracker l)) = 0
             then set_status (tracker l) StatusSwitchingProtocols (receive rw CallHijack s2)
             else receive rw CallHijack s2"
  have "call_Hijack l s2 = Some (f (received (writers s2 rw)), ?s3)"
    by (rule call_Hijack_built [OF b(1) assms(2) r(1) f])
  moreover have "received (writers ?s3 rw) = received (writers s2 rw) @ [CallHijack]"
    by (simp add: set_status_def receive_def)
  moreover have "call_Status l ?s3 =
      (if snd (snd (f (received (writers s2 rw)))) = None \<and> call_Status l s2 = 0
       then 101 else call_Status l s2)"
    by (simp add: call_Status_built [OF b(1)] set_status_def receive_def
          StatusSwitchingProtocols_def)
  moreover have "call_Size l ?s3 = call_Size l s2"
    by (simp add: call_Size_built [OF b(1)] set_status_def receive_def)
  ultimately show ?thesis using f by blast
qed


text \<open>C6 at a sink whose \<open>Hijack\<close> succeeds, fresh and after \<open>WriteHeader(404)\<close>,
  and at a sink whose \<open>Hijack\<close> fails.\<close>

theorem Hijack_forwards_witness:
  "implements (method_set (example_logger full_sink)) http_Hijacker
   \<and> map_option fst (call_Hijack (example_logger full_sink) (example_start full_sink))
       = Some (1, 2, None)
   \<and> map_option (\<lambda>p. call_Status (example_logger full_sink) (snd p))
        (call_Hijack (example_logger full_sink) (example_start full_sink)) = Some 101
   \<and> map_option (\<lambda>p. call_Status (example_logger full_sink) (snd p))
        (call_Hijack (example_logger full_sink)
           (example_after full_sink [DoWriteHeader 404] (example_start full_sink))) = Some 404
   \<and> implements (method_set (example_logger refusing_sink)) http_Hijacker
   \<and> map_option fst (call_Hijack (example_logger refusing_sink) (example_start refusing_sink))
       = Some (0, 0, Some (Error ''hijack refused''))
   \<and> map_option (\<lambda>p. call_Status (example_logger refusing_sink) (snd p))
        (call_Hijack (example_logger refusing_sink) (example_start refusing_sink)) = Some 0"
proof -
  have m1: "makeLogger 0 (example_world full_sink example_request)
            = (example_logger full_sink, example_start full_sink)"
    and m2: "makeLogger 0 (example_world refusing_sink example_request)
            = (example_logger refusing_sink, example_start refusing_sink)"
    by (simp_all add: logger_example_defs)
  have h1: "implements (method_set (example_logger full_sink)) http_Hijacker"
    and h2: "implements (method_set (example_logger refusing_sink)) http_Hijacker"
    by (simp_all add: logger_example_defs example_defs eval_defs)
  have r0: "run_handler [] (LoggingWriter (example_logger full_sink)) 0 (example_start full_sink)
            = (Returned, [], example_start full_sink)"
    and r2: "run_handler [] (LoggingWriter (example_logger refusing_sink)) 0
               (example_start refusing_sink)
             = (Returned, [], example_start refusing_sink)"
    by simp_all
  have r1: "run_handler [DoWriteHeader 404] (LoggingWriter (example_logger full_sink)) 0
              (example_start full_sink)
            = (Returned, [EvWriteHeader 404],
               example_after full_sink [DoWriteHeader 404] (example_start full_sink))"
    by (simp add: logger_example_defs example_defs eval_defs)
  show ?thesis
    using Hijack_forwards [OF m1 h1 r0] Hijack_forwards [OF m1 h1 r1]
      Hijack_forwards [OF m2 h2 r2]
    by (simp add: logger_example_defs example_defs eval_defs)
qed

lemma call_Flush_built:
  "built rw a l \<Longrightarrow> w (heap s a) = rw \<Longrightarrow>
   call_Flush l s =
     (if implements (dynamic_methods (writers s rw)) http_Flusher then real_Flush rw s else s)"
  by (auto simp add: built_def responseLogger_Flush_def)

lemma Flusher_built: "built rw a l \<Longrightarrow> implements (method_set l) http_Flusher"
  by (auto simp add: built_def iface_defs)

subsection \<open>Flush\<close>

text \<open>
  Claim C10. For every real sink, the sink that \<open>makeLogger\<close> builds passes the
  \<open>http.Flusher\<close> assertion; after any run of a handler, \<open>Flush\<close> on it returns
  (the function is total) and is the \<open>Flush\<close> of the real sink when the real sink is
  an \<open>http.Flusher\<close>, and changes nothing when it is not.
\<close>

theorem Flush_safe:
  assumes "makeLogger rw s = (l, s1)"
    and "run_handler xs (LoggingWriter l) req s1 = (Returned, es, s2)"
  shows "implements (method_set l) http_Flusher
       \<and> call_Flush l s2 =
           (if implements (dynamic_methods (writers s rw)) http_Flusher
            then real_Flush rw s2 else s2)"
proof -
  note b = makeLogger_built [OF assms(1)]
  from run_built [OF b(1) _ assms(2)] b(2)
  have r: "w (heap s2 (tracker l)) = rw" "same_frame s1 s2" by simp_all
  from r(2) b(3) have "Flush_impl (writers s2 rw) = Flush_impl (writers s rw)"
    by (simp add: same_frame_def)
  then have "implements (dynamic_methods (writers s2 rw)) http_Flusher =
             implements (dynamic_methods (writers s rw)) http_Flusher"
    by (simp add: iface_defs)
  with call_Flush_built [OF b(1) r(1)] Flusher_built [OF b(1)] show ?thesis by simp
qed


text \<open>C10 at a real sink without \<open>Flush\<close> and at one with it.\<close>

theorem Flush_safe_witness:
  "implements (method_set (example_logger plain_sink)) http_Flusher
   \<and> \<not> implements (dynamic_methods (writers (example_world plain_sink example_request) 0))
          http_Flusher
   \<and> call_Flush (example_logger plain_sink) (example_start plain_sink)
       = example_start plain_sink
   \<and> implements (dynamic_methods (writers (example_world full_sink example_request) 0))
        http_Flusher
   \<and> received (writers (call_Flush (example_logger full_sink) (example_start full_sink)) 0)
       = [CallFlush]"
proof -
  have m1: "makeLogger 0 (example_world plain_sink example_request)
            = (example_logger plain_sink, example_start plain_sink)"
    and m2: "makeLogger 0 (example_world full_sink example_request)
            = (example_logger full_sink, example_start full_sink)"
    by (simp_all add: logger_example_defs)
  have r1: "run_handler [] (LoggingWriter (example_logger plain_sink)) 0
              (example_start plain_sink)
            = (Returned, [], example_start plain_sink)"
    and r2: "run_handler [] (LoggingWriter (example_logger full_sink)) 0 (example_start full_sink)
             = (Returned, [], example_start full_sink)"
    by simp_all
  show ?thesis
    using Flush_safe [OF m1 r1] Flush_safe [OF m2 r2]
    by (simp add: logger_example_defs example_defs eval_defs)
qed

lemma call_Header_registry:
  "call_Header l (s\<lparr>DefaultRegistry := r\<rparr>) = (call_Header l s)\<lparr>DefaultRegistry := r\<rparr>"
  by (induction l) (simp_all add: real_defs logger_defs)

lemma call_Write_registry:
  "call_Write l b (s\<lparr>DefaultRegistry := r\<rparr>) =
     (fst (call_Write l b s), (snd (call_Write l b s))\<lparr>DefaultRegistry := r\<rparr>)"
  by (induction l) (simp_all add: real_defs logger_defs Let_def case_prod_beta)

lemma call_WriteHeader_registry:
  "call_WriteHeader l code (s\<lparr>DefaultRegistry := r\<rparr>) =
     (call_WriteHeader l code s)\<lparr>DefaultRegistry := r\<rparr>"
  by (induction l) (simp_all add: real_defs logger_defs)

lemma call_Flush_registry:
  "call_Flush l (s\<lparr>DefaultRegistry := r\<rparr>) = (call_Flush l s)\<lparr>DefaultRegistry := r\<rparr>"
  by (induction l) (simp_all add: real_defs logger_defs)

lemma hijackLogger_Hijack_registry:
  "hijackLogger_Hijack a (s\<lparr>DefaultRegistry := r\<rparr>) =
     map_option (\<lambda>p. (fst p, (snd p)\<lparr>DefaultRegistry := r\<rparr>)) (hijackLogger_Hijack a s)"
proof (cases "Hijack_impl (writers s (w (heap s a)))")
  case None
  then show ?thesis by (simp add: hijackLogger_Hijack_def real_Hijack_def iface_defs)
next
  case (Some f)
  obtain conn brw err where "f (received (writers s (w (heap s a)))) = (conn, brw, err)"
    by (cases "f (received (writers s (w (heap s a))))")
  with Some show ?thesis
    by (simp add: hijackLogger_Hijack_def real_Hijack_def receive_def set_status_def)
qed

lemma call_Hijack_registry:
  "call_Hijack l (s\<lparr>DefaultRegistry := r\<rparr>) =
     map_option (\<lambda>p. (fst p, (snd p)\<lparr>DefaultRegistry := r\<rparr>)) (call_Hijack l s)"
  by (induction l) (simp_all add: hijackLogger_Hijack_registry)

lemma call_CloseNotify_registry:
  "call_CloseNotify l (s\<lparr>DefaultRegistry := r\<rparr>) =
     map_option (\<lambda>p. (fst p, (snd p)\<lparr>DefaultRegistry := r\<rparr>)) (call_CloseNotify l s)"
  by (induction l) (simp_all add: real_defs split: option.splits)

lemma sink_methods_registry: "sink_methods v (s\<lparr>DefaultRegistry := r\<rparr>) = sink_methods v s"
  by (cases v) simp_all

lemma step_registry:
  "step v req x (s\<lparr>DefaultRegistry := r\<rparr>) =
     map_option (\<lambda>p. (fst p, (snd p)\<lparr>DefaultRegistry := r\<rparr>)) (step v req x s)"
proof (cases v)
  case (RealWriter a)
  then show ?thesis
    by (cases x) (simp_all add: real_defs case_prod_beta split: option.splits)
next
  case (LoggingWriter l)
  then show ?thesis
    by (cases x)
       (simp_all add: call_Header_registry call_Write_registry call_WriteHeader_registry
          call_Flush_registry call_Hijack_registry call_CloseNotify_registry case_prod_beta
          split: option.splits)
qed

lemma run_registry:
  "run_handler xs v req s = (c, es, s1) \<Longrightarrow>
   run_handler xs v req (s\<lparr>DefaultRegistry := r\<rparr>) = (c, es, s1\<lparr>DefaultRegistry := r\<rparr>)"
proof (induction xs arbitrary: s c es s1)
  case Nil
  then show ?case by simp
next
  case (Cons x xs)
  show ?case
  proof (cases "step v req x s")
    case None
    with Cons.prems show ?thesis by (simp add: step_registry)
  next
    case (Some p)
    obtain e s2 where p: "p = (e, s2)" by (cases p)
    obtain c1 es1 s3 where r: "run_handler xs v req s2 = (c1, es1, s3)"
      by (cases "run_handler xs v req s2")
    from Cons.prems Some p r have eq: "c = c1" "es = e # es1" "s1 = s3" by simp_all
    from Cons.IH [OF r] show ?thesis
      by (simp add: step_registry Some p eq)
  qed
qed

lemma run_keeps_registry:
  assumes "run_handler xs v req s = (c, es, s1)"
  shows "DefaultRegistry s1 = DefaultRegistry s"
proof -
  from run_registry [OF assms, of "DefaultRegistry s"] assms
  have eq: "s1\<lparr>DefaultRegistry := DefaultRegistry s\<rparr> = s1" by simp
  have "DefaultRegistry (s1\<lparr>DefaultRegistry := DefaultRegistry s\<rparr>) = DefaultRegistry s1"
    by (simp only: eq)
  then show ?thesis by simp
qed

subsection \<open>The timing decorator\<close>

text \<open>
  Claim C9, amended. \<open>ServeHTTP\<close> of the timing decorator runs the inner handler on
  the sink and the request it was given: it returns exactly when the inner handler
  does, with the same calls, and leaves the world that the inner handler leaves, but
  for the registry. There, the timer named by the method that the request had on entry
  exists afterwards, with its earlier samples; when the inner handler returns it has
  exactly one sample more, the time elapsed during the call; when the inner handler
  does not return, it has none more. No other timer changes.
\<close>

theorem timing_decorator:
  assumes "run_handler h v req s = (c, es, s1)"
  shows "httpMetricsHandler_ServeHTTP (HTTPMetricsHandler h) v req s =
           (c, es,
            s1\<lparr>DefaultRegistry :=
                 (DefaultRegistry s)
                   (Method (requests s req) \<mapsto>
                      (case DefaultRegistry s (Method (requests s req)) of
                         None \<Rightarrow> [] | Some samples \<Rightarrow> samples)
                      @ (if c = Returned then [clock s1 - clock s] else []))\<rparr>)"
proof (cases "DefaultRegistry s (Method (requests s req))")
  case None
  with run_registry [OF assms, of "(DefaultRegistry s)(Method (requests s req) \<mapsto> [])"]
  show ?thesis
    by (cases c)
       (simp_all add: GetOrRegisterTimer_def Timer_Time_def Timer_Update_def)
next
  case (Some samples)
  then have "(DefaultRegistry s)(Method (requests s req) \<mapsto> samples) = DefaultRegistry s"
    by (simp add: fun_upd_idem)
  with Some assms run_keeps_registry [OF assms] show ?thesis
    by (cases c)
       (simp_all add: GetOrRegisterTimer_def Timer_Time_def Timer_Update_def)
qed

text \<open>C9 at a handler that takes five units of time and writes to a real sink.\<close>

theorem timing_decorator_witness:
  "fst (httpMetricsHandler_ServeHTTP (HTTPMetricsHandler [DoSleep 5, DoWrite ''ok''])
          (RealWriter 0) 0 (example_world plain_sink example_request)) = Returned
   \<and> DefaultRegistry (snd (snd
         (httpMetricsHandler_ServeHTTP (HTTPMetricsHandler [DoSleep 5, DoWrite ''ok''])
            (RealWriter 0) 0 (example_world plain_sink example_request)))) ''GET''
       = Some [5]
   \<and> received (writers (snd (snd
         (httpMetricsHandler_ServeHTTP (HTTPMetricsHandler [DoSleep 5, DoWrite ''ok''])
            (RealWriter 0) 0 (example_world plain_sink example_request)))) 0)
       = [CallWrite ''ok'']"
proof -
  have r: "run_handler [DoSleep 5, DoWrite ''ok''] (RealWriter 0) 0
             (example_world plain_sink example_request)
           = (Returned, [EvSleep, EvWrite ''ok'' 2 None],
              snd (snd (run_handler [DoSleep 5, DoWrite ''ok''] (RealWriter 0) 0
                 (example_world plain_sink example_request))))"
    by (simp add: example_defs real_defs)
  show ?thesis
    unfolding timing_decorator [OF r]
    by (simp add: example_defs real_defs)
qed

text \<open>C9 as first stated fails for a request whose inner handler does not return: the
  timer is created, and no sample is recorded.\<close>

theorem timing_decorator_counterexample:
  "fst (httpMetricsHandler_ServeHTTP (HTTPMetricsHandler [DoPanic]) (RealWriter 0) 0
          (example_world plain_sink example_request)) = Panicked
   \<and> DefaultRegistry (snd (snd
         (httpMetricsHandler_ServeHTTP (HTTPMetricsHandler [DoPanic]) (RealWriter 0) 0
            (example_world plain_sink example_request)))) ''GET''
       = Some []"
  by (simp add: example_defs GetOrRegisterTimer_def Timer_Time_def Timer_Update_def)

subsection \<open>Capabilities of the built sink\<close>

text \<open>
  Claim C1, amended. For every real sink, whatever its combination of optional methods,
  the sink that \<open>makeLogger\<close> builds passes the \<open>http.Hijacker\<close> assertion exactly
  when the real sink does, passes the \<open>http.CloseNotifier\<close> assertion exactly when
  the real sink does, and always passes the \<open>http.Flusher\<close> assertion and has
  \<open>Status\<close> and \<open>Size\<close>, also when the real sink is not an \<open>http.Flusher\<close>.
\<close>

theorem makeLogger_capabilities:
  "capabilities (method_set (fst (makeLogger rw s))) =
     (capabilities (dynamic_methods (writers s rw)) \<inter> {Upgrade, CloseNotification})
     \<union> {ExplicitFlush, Tracking}"
  by (auto simp add: makeLogger_fst capabilities_def iface_defs)

text \<open>C1 at a real sink with all three optional methods.\<close>

theorem makeLogger_capabilities_witness:
  "capabilities (dynamic_methods (writers (example_world full_sink example_request) 0))
     = {Upgrade, CloseNotification, ExplicitFlush}
   \<and> capabilities (method_set (fst (makeLogger 0 (example_world full_sink example_request))))
       = {Upgrade, CloseNotification, ExplicitFlush, Tracking}"
  using makeLogger_capabilities [of 0 "example_world full_sink example_request"]
  by (auto simp add: capabilities_def iface_defs example_defs)

text \<open>C1 as first stated fails at a real sink with none of the optional methods: the
  built sink passes the \<open>http.Flusher\<close> assertion, a capability that the real sink
  does not have.\<close>

theorem makeLogger_capabilities_counterexample:
  "capabilities (dynamic_methods (writers (example_world plain_sink example_request) 0)) = {}
   \<and> capabilities (method_set (fst (makeLogger 0 (example_world plain_sink example_request))))
       = {ExplicitFlush, Tracking}
   \<and> capabilities (method_set (fst (makeLogger 0 (example_world plain_sink example_request))))
       \<noteq> capabilities (dynamic_methods (writers (example_world plain_sink example_request) 0))
         \<union> {Tracking}"
  by (auto simp add: makeLogger_fst capabilities_def iface_defs example_defs)

end
